theory Spec2Isabelle
  imports Complex_Main "HOL-Library.Sublist"
begin

section \<open>JavaScript values and number coercion\<close>

text \<open>
  The tracker is one file, \<^verbatim>\<open>src/App.tsx\<close>; the repository holds a second copy of
  it whose code for everything modelled here is the same, except that its CSV export
  leaves the date of a \<^verbatim>\<open>Timestamp\<close> empty.

  The tracker computes with JavaScript numbers. In the salary calculation, the net cash
  flow and the totals of the period filters they are modelled as exact real numbers:
  the arithmetic of the program (\<^verbatim>\<open>+\<close>, \<^verbatim>\<open>-\<close>, \<^verbatim>\<open>*\<close>, \<^verbatim>\<open>/\<close>) is the arithmetic of \<^typ>\<open>real\<close>,
  and the rounding of IEEE doubles is outside the model there. In the dashboard
  forecast, where the program rounds an accumulated sum to two decimals, they are
  modelled as doubles with the rounding of every addition. Overflow to an infinity and
  the sign of zero are outside the model.

  A value read from a form field or from a stored document is a string, a number, or is
  absent. The program coerces every such value with
  \<^verbatim>\<open>parseFloat(String(v)) || 0\<close>.
\<close>

type_synonym number = real

datatype jsval = JUndefined | JNull | JNaN | JNum number | JStr string

text \<open>
  \<^verbatim>\<open>parseFloat\<close> on the text of a string value is the platform's function and is a
  parameter \<open>pf\<close> of the model: \<open>pf s = None\<close> when \<^verbatim>\<open>parseFloat(s)\<close> is \<^verbatim>\<open>NaN\<close>, that is,
  when no prefix of \<open>s\<close> is a decimal literal. \<^verbatim>\<open>String\<close> of a number followed by
  \<^verbatim>\<open>parseFloat\<close> gives the number back; \<^verbatim>\<open>String(undefined)\<close>, \<^verbatim>\<open>String(null)\<close>
  and \<^verbatim>\<open>String(NaN)\<close> are the words \<^verbatim>\<open>undefined\<close>, \<^verbatim>\<open>null\<close> and \<^verbatim>\<open>NaN\<close>, which do not
  parse.
\<close>

type_synonym parseFloat = "string \<Rightarrow> number option"

definition parseFloat_String :: "parseFloat \<Rightarrow> jsval \<Rightarrow> number option" where
  "parseFloat_String pf v =
     (case v of
        JUndefined \<Rightarrow> None
      | JNull \<Rightarrow> None
      | JNaN \<Rightarrow> None
      | JNum x \<Rightarrow> Some x
      | JStr s \<Rightarrow> pf s)"

text \<open>\<^verbatim>\<open>x || 0\<close> on the result of \<^verbatim>\<open>parseFloat\<close>: \<^verbatim>\<open>NaN\<close> and \<^verbatim>\<open>0\<close> are falsy.\<close>

definition orZero :: "number option \<Rightarrow> number" where
  "orZero p = (case p of None \<Rightarrow> 0 | Some x \<Rightarrow> (if x = 0 then 0 else x))"

text \<open>
  \<^verbatim>\<open>parseFloat\<close> of ECMA-262 on ASCII text with a finite value, for running the model on
  concrete strings: leading white space is skipped, then the longest prefix that is a
  signed decimal literal (digits, an optional fraction, an optional exponent) is read;
  without one the result is \<^verbatim>\<open>NaN\<close>. The literal \<^verbatim>\<open>Infinity\<close> has no finite value and is
  outside the model.
\<close>

definition isDigit :: "char \<Rightarrow> bool" where
  "isDigit c = (48 \<le> (of_char c :: nat) \<and> (of_char c :: nat) \<le> 57)"

definition isStrWhiteSpaceChar :: "char \<Rightarrow> bool" where
  "isStrWhiteSpaceChar c =
     ((9 \<le> (of_char c :: nat) \<and> (of_char c :: nat) \<le> 13) \<or> (of_char c :: nat) = 32)"

fun digitsValue :: "nat \<Rightarrow> string \<Rightarrow> nat" where
  "digitsValue acc [] = acc"
| "digitsValue acc (c # cs) = digitsValue (10 * acc + (of_char c - 48)) cs"

definition exponentPart :: "string \<Rightarrow> int" where
  "exponentPart s =
     (case s of
        [] \<Rightarrow> 0
      | c # r \<Rightarrow>
          if c = CHR ''e'' \<or> c = CHR ''E'' then
            (case r of
               [] \<Rightarrow> 0
             | d # r' \<Rightarrow>
                 if d = CHR ''-'' then - int (digitsValue 0 (takeWhile isDigit r'))
                 else if d = CHR ''+'' then int (digitsValue 0 (takeWhile isDigit r'))
                 else int (digitsValue 0 (takeWhile isDigit r)))
          else 0)"

definition parseFloatDecimal :: parseFloat where
  "parseFloatDecimal inputString =
     (let trimmed = dropWhile isStrWhiteSpaceChar inputString;
          negative = (trimmed \<noteq> [] \<and> hd trimmed = CHR ''-'');
          unsigned =
            (if trimmed \<noteq> [] \<and> (hd trimmed = CHR ''-'' \<or> hd trimmed = CHR ''+'')
             then tl trimmed else trimmed);
          intDigits = takeWhile isDigit unsigned;
          afterInt = dropWhile isDigit unsigned;
          hasPoint = (afterInt \<noteq> [] \<and> hd afterInt = CHR ''.'');
          fracDigits = (if hasPoint then takeWhile isDigit (tl afterInt) else []);
          afterFrac = (if hasPoint then dropWhile isDigit (tl afterInt) else afterInt);
          e = exponentPart afterFrac;
          mantissa =
            of_nat (digitsValue 0 intDigits)
              + of_nat (digitsValue 0 fracDigits) / 10 ^ length fracDigits;
          magnitude = (if 0 \<le> e then mantissa * 10 ^ nat e else mantissa / 10 ^ nat (- e))
      in if intDigits = [] \<and> fracDigits = [] then None
         else Some (if negative then - magnitude else magnitude))"

text \<open>
  The decimal digits of a natural number, as \<^verbatim>\<open>String\<close> and template literals write a
  non-negative whole number.
\<close>

fun natToString :: "nat \<Rightarrow> string" where
  "natToString n =
     (if n < 10 then [char_of (48 + n)]
      else natToString (n div 10) @ [char_of (48 + n mod 10)])"

declare natToString.simps [simp del]

definition wholeToString :: "number \<Rightarrow> string" where
  "wholeToString x = natToString (nat \<lfloor>x\<rfloor>)"


section \<open>Salary Calculator\<close>

text \<open>
  \<^verbatim>\<open>calculateSalary\<close> (component \<^verbatim>\<open>Salary\<close>) ends in three state updates,
  \<^verbatim>\<open>setMonthlyIncome\<close>, \<^verbatim>\<open>setDailyIncome\<close> and \<^verbatim>\<open>setTotalDeductions\<close>; the model
  returns the three values.
\<close>

record SalaryResult =
  monthlyIncome :: number
  dailyIncome :: number
  totalDeductions :: number

text \<open>The \<^verbatim>\<open>switch (currentFrequency)\<close>, with its \<^verbatim>\<open>default\<close> branch.\<close>

definition calculatedMonthlyIncome :: "string \<Rightarrow> number \<Rightarrow> number" where
  "calculatedMonthlyIncome currentFrequency parsedSalary =
     (if currentFrequency = ''Weekly'' then parsedSalary * (365 / 7 / 12)
      else if currentFrequency = ''Fortnightly'' then parsedSalary * (365 / 14 / 12)
      else parsedSalary)"

text \<open>\<^verbatim>\<open>let workdaysInMonth = 22; if (d === '1') ... else if (d === '2') ...\<close>\<close>

definition workdaysInMonth :: "string \<Rightarrow> number" where
  "workdaysInMonth currentDayOffInMonth =
     (if currentDayOffInMonth = ''1'' then 26
      else if currentDayOffInMonth = ''2'' then 22
      else 22)"

definition calculateSalary ::
  "parseFloat \<Rightarrow> jsval \<Rightarrow> string \<Rightarrow> string \<Rightarrow>
     jsval \<Rightarrow> jsval \<Rightarrow> jsval \<Rightarrow> jsval \<Rightarrow> jsval \<Rightarrow> jsval \<Rightarrow> SalaryResult" where
  "calculateSalary pf currentSalary currentFrequency currentDayOffInMonth
       currentSss currentPhilhealth currentPagibig currentTax currentLoans currentVoluntary =
     (let parsedSalary = orZero (parseFloat_String pf currentSalary);
          parsedSss = orZero (parseFloat_String pf currentSss);
          parsedPhilhealth = orZero (parseFloat_String pf currentPhilhealth);
          parsedPagibig = orZero (parseFloat_String pf currentPagibig);
          parsedTax = orZero (parseFloat_String pf currentTax);
          parsedLoans = orZero (parseFloat_String pf currentLoans);
          parsedVoluntary = orZero (parseFloat_String pf currentVoluntary);
          monthly = calculatedMonthlyIncome currentFrequency parsedSalary;
          workdays = workdaysInMonth currentDayOffInMonth;
          calculatedDailyIncome = (if workdays > 0 then monthly / workdays else 0);
          calculatedTotalDeductions =
            parsedSss + parsedPhilhealth + parsedPagibig + parsedTax + parsedLoans
              + parsedVoluntary
      in \<lparr> monthlyIncome = monthly,
           dailyIncome = calculatedDailyIncome,
           totalDeductions = calculatedTotalDeductions \<rparr>)"


section \<open>Net cash flow of the dashboard\<close>

text \<open>
  A stored date is a \<^verbatim>\<open>Date\<close> or a Firestore \<^verbatim>\<open>Timestamp\<close>; \<open>TimestampObj ms\<close> is a
  timestamp whose \<^verbatim>\<open>toDate()\<close> has the time value \<open>ms\<close> (milliseconds since
  1 January 1970 UTC). A missing date is \<open>None\<close>.
\<close>

datatype dateval = DateObj int | TimestampObj int

text \<open>The stored salary document (interface \<^verbatim>\<open>SalaryDetails\<close>). The numeric fields are
  coerced by the program before use, so they are kept as raw values.\<close>

record SalaryDetails =
  salary :: jsval
  frequency :: string
  paydaySpecific :: string
  dayOffInMonth :: string
  sss :: jsval
  philhealth :: jsval
  pagibig :: jsval
  tax :: jsval
  loans :: jsval
  voluntary :: jsval
  lastUpdated :: "dateval option"

text \<open>
  The salary subscription of component \<^verbatim>\<open>App\<close>: \<open>None\<close> is a snapshot for which
  \<^verbatim>\<open>docSnap.exists()\<close> is false. The result is the argument of
  \<^verbatim>\<open>setMonthlyNetCashFlow\<close>.
\<close>

definition monthlyNetCashFlow :: "parseFloat \<Rightarrow> SalaryDetails option \<Rightarrow> number" where
  "monthlyNetCashFlow pf docSnap =
     (case docSnap of
        None \<Rightarrow> 0
      | Some data \<Rightarrow>
          (let grossSalary = orZero (parseFloat_String pf (salary data));
               sss' = orZero (parseFloat_String pf (sss data));
               philhealth' = orZero (parseFloat_String pf (philhealth data));
               pagibig' = orZero (parseFloat_String pf (pagibig data));
               tax' = orZero (parseFloat_String pf (tax data));
               loans' = orZero (parseFloat_String pf (loans data));
               voluntary' = orZero (parseFloat_String pf (voluntary data));
               estimatedMonthlyGross =
                 (if frequency data = ''Weekly'' then grossSalary * (365 / 7 / 12)
                  else if frequency data = ''Fortnightly'' then grossSalary * (365 / 14 / 12)
                  else grossSalary);
               totalFixedDeductions = sss' + philhealth' + pagibig' + tax' + loans' + voluntary';
               estimatedMonthlyNetSalary = estimatedMonthlyGross - totalFixedDeductions
           in estimatedMonthlyNetSalary))"


section \<open>Dates\<close>

text \<open>
  A \<^verbatim>\<open>Date\<close> is its time value, the milliseconds since 1 January 1970 UTC, as an
  integer. The calendar functions are those of ECMA-262 (Day Number and Time within Day,
  Year Number, Month Number, Date Number, Week Day, \<^verbatim>\<open>MakeDay\<close>, \<^verbatim>\<open>MakeDate\<close>). Time
  values stay within the range of \<^verbatim>\<open>Date\<close>.
\<close>

definition msPerDay :: int where
  "msPerDay = 86400000"

definition Day :: "int \<Rightarrow> int" where
  "Day t = t div msPerDay"

definition TimeWithinDay :: "int \<Rightarrow> int" where
  "TimeWithinDay t = t mod msPerDay"

definition DaysInYear :: "int \<Rightarrow> int" where
  "DaysInYear y =
     (if y mod 4 \<noteq> 0 then 365
      else if y mod 100 \<noteq> 0 then 366
      else if y mod 400 \<noteq> 0 then 365
      else 366)"

definition DayFromYear :: "int \<Rightarrow> int" where
  "DayFromYear y =
     365 * (y - 1970) + (y - 1969) div 4 - (y - 1901) div 100 + (y - 1601) div 400"

text \<open>The day number of 1 January grows by the length of the year.\<close>

lemma div_succ:
  fixes a n :: int
  assumes "0 < n"
  shows "(a + 1) div n = a div n + (if (a + 1) mod n = 0 then 1 else 0)"
proof (cases "a mod n = n - 1")
  case True
  have "n * (a div n) + a mod n = a"
    by simp
  with True have e: "a + 1 = n * (a div n) + n"
    by linarith
  have "(n * (a div n) + n) div n = a div n + 1" "(n * (a div n) + n) mod n = 0"
    using assms by simp_all
  with e show ?thesis by simp
next
  case False
  have r: "0 \<le> a mod n" "a mod n < n"
    using assms by simp_all
  with False have lt: "a mod n + 1 < n" by linarith
  have e: "a + 1 = n * (a div n) + (a mod n + 1)"
    using mult_div_mod_eq [of n a] by linarith
  have "(a + 1) div n = a div n"
    using int_div_pos_eq [OF e _ lt] r by linarith
  moreover have "(a + 1) mod n = a mod n + 1"
    using int_mod_pos_eq [OF e _ lt] r by linarith
  ultimately show ?thesis using r by simp
qed

lemma DayFromYear_step: "DayFromYear (y + 1) = DayFromYear y + DaysInYear y"
proof -
  have m4: "(y - 1968) mod 4 = y mod 4"
    using mod_mult_self2 [of y 4 "-492"] by simp
  have m100: "(y - 1900) mod 100 = y mod 100"
    using mod_mult_self2 [of y 100 "-19"] by simp
  have m400: "(y - 1600) mod 400 = y mod 400"
    using mod_mult_self2 [of y 400 "-4"] by simp
  have a: "(y + 1 - 1969) div 4 = (y - 1969) div 4 + (if y mod 4 = 0 then 1 else 0)"
    using div_succ [of 4 "y - 1969"] m4 by (simp add: algebra_simps)
  have b: "(y + 1 - 1901) div 100 = (y - 1901) div 100 + (if y mod 100 = 0 then 1 else 0)"
    using div_succ [of 100 "y - 1901"] m100 by (simp add: algebra_simps)
  have c: "(y + 1 - 1601) div 400 = (y - 1601) div 400 + (if y mod 400 = 0 then 1 else 0)"
    using div_succ [of 400 "y - 1601"] m400 by (simp add: algebra_simps)
  have d: "y mod 400 = 0 \<Longrightarrow> y mod 100 = 0"
    using mod_mod_cancel [of 100 400 y] by simp
  have e: "y mod 100 = 0 \<Longrightarrow> y mod 4 = 0"
    using mod_mod_cancel [of 4 100 y] by simp
  show ?thesis
    unfolding DayFromYear_def DaysInYear_def a b c
    using d e by auto
qed

lemma DaysInYear_pos: "0 < DaysInYear y"
  by (simp add: DaysInYear_def)

text \<open>
  \<^verbatim>\<open>YearFromTime(t)\<close> is the largest year whose first day is not after \<open>t\<close>. It is
  found by a search upwards from a year that is not after it.
\<close>

function yearSearch :: "int \<Rightarrow> int \<Rightarrow> int" where
  "yearSearch y d = (if DayFromYear (y + 1) \<le> d then yearSearch (y + 1) d else y)"
  by pat_completeness auto
termination
proof (relation "measure (\<lambda>(y, d). nat (d + 1 - DayFromYear (y + 1)))")
  show "wf (measure (\<lambda>(y, d). nat (d + 1 - DayFromYear (y + 1))))"
    by simp
next
  fix y d :: int
  assume le: "DayFromYear (y + 1) \<le> d"
  have "DayFromYear (y + 1) < DayFromYear (y + 1 + 1)"
    using DayFromYear_step [of "y + 1"] DaysInYear_pos [of "y + 1"] by linarith
  with le show "((y + 1, d), (y, d)) \<in> measure (\<lambda>(y, d). nat (d + 1 - DayFromYear (y + 1)))"
    by simp
qed

declare yearSearch.simps [simp del]

definition YearFromDay :: "int \<Rightarrow> int" where
  "YearFromDay d = yearSearch (1970 + (if 0 \<le> d then d div 366 else d div 365)) d"

definition YearFromTime :: "int \<Rightarrow> int" where
  "YearFromTime t = YearFromDay (Day t)"

definition InLeapYear :: "int \<Rightarrow> int" where
  "InLeapYear t = (if DaysInYear (YearFromTime t) = 366 then 1 else 0)"

definition DayWithinYear :: "int \<Rightarrow> int" where
  "DayWithinYear t = Day t - DayFromYear (YearFromTime t)"

definition MonthFromTime :: "int \<Rightarrow> int" where
  "MonthFromTime t =
     (let d = DayWithinYear t; l = InLeapYear t
      in if d < 31 then 0
         else if d < 59 + l then 1
         else if d < 90 + l then 2
         else if d < 120 + l then 3
         else if d < 151 + l then 4
         else if d < 181 + l then 5
         else if d < 212 + l then 6
         else if d < 243 + l then 7
         else if d < 273 + l then 8
         else if d < 304 + l then 9
         else if d < 334 + l then 10
         else 11)"

text \<open>The day within the year on which month \<open>m\<close> (0 to 11) starts; \<open>l\<close> is 1 in a
  leap year.\<close>

definition DayFromMonth :: "int \<Rightarrow> int \<Rightarrow> int" where
  "DayFromMonth m l =
     [0, 31, 59 + l, 90 + l, 120 + l, 151 + l, 181 + l, 212 + l, 243 + l, 273 + l,
      304 + l, 334 + l] ! nat m"

definition DateFromTime :: "int \<Rightarrow> int" where
  "DateFromTime t = DayWithinYear t - DayFromMonth (MonthFromTime t) (InLeapYear t) + 1"

definition WeekDay :: "int \<Rightarrow> int" where
  "WeekDay t = (Day t + 4) mod 7"

text \<open>\<^verbatim>\<open>MakeDay\<close>: the day number of the first day of month \<open>month\<close> of year \<open>year\<close>
  (months beyond 0 to 11 carry into the year), plus \<open>date - 1\<close>.\<close>

definition MakeDay :: "int \<Rightarrow> int \<Rightarrow> int \<Rightarrow> int" where
  "MakeDay year month date =
     (let ym = year + month div 12;
          mn = month mod 12
      in DayFromYear ym + DayFromMonth mn (if DaysInYear ym = 366 then 1 else 0) + date - 1)"

definition MakeDate :: "int \<Rightarrow> int \<Rightarrow> int" where
  "MakeDate day time = day * msPerDay + time"

text \<open>
  Local time. The platform's time zone gives the offset of local time from UTC in
  milliseconds, and the offset changes at a daylight-saving transition. \<open>offsetAtUTC\<close>
  is the offset in force at an instant (\<^verbatim>\<open>LocalTZA(t, true)\<close>); \<open>offsetAtLocal\<close> is the
  offset with which a local time is read (\<^verbatim>\<open>LocalTZA(t, false)\<close>), the offset before the
  transition for a local time that a transition skips or repeats. The zone is a
  parameter \<open>tz\<close> of the model.
\<close>

record TimeZone =
  offsetAtUTC :: "int \<Rightarrow> int"
  offsetAtLocal :: "int \<Rightarrow> int"

definition LocalTime :: "TimeZone \<Rightarrow> int \<Rightarrow> int" where
  "LocalTime tz t = t + offsetAtUTC tz t"

definition UTC :: "TimeZone \<Rightarrow> int \<Rightarrow> int" where
  "UTC tz t = t - offsetAtLocal tz t"

text \<open>A zone without transitions, and New York in 2024: five hours behind UTC, four
  from 10 March 07:00 UTC (03:00 local time) to 3 November 06:00 UTC (02:00 local
  time).\<close>

definition fixedZone :: "int \<Rightarrow> TimeZone" where
  "fixedZone offset = \<lparr> offsetAtUTC = (\<lambda>t. offset), offsetAtLocal = (\<lambda>t. offset) \<rparr>"

definition newYork2024 :: TimeZone where
  "newYork2024 =
     \<lparr> offsetAtUTC =
         (\<lambda>t. if 1710054000000 \<le> t \<and> t < 1730613600000 then - 14400000 else - 18000000),
       offsetAtLocal =
         (\<lambda>t. if 1710039600000 \<le> t \<and> t < 1730599200000 then - 14400000 else - 18000000) \<rparr>"

definition getFullYear :: "TimeZone \<Rightarrow> int \<Rightarrow> int" where
  "getFullYear tz t = YearFromTime (LocalTime tz t)"

definition getMonth :: "TimeZone \<Rightarrow> int \<Rightarrow> int" where
  "getMonth tz t = MonthFromTime (LocalTime tz t)"

definition getDate :: "TimeZone \<Rightarrow> int \<Rightarrow> int" where
  "getDate tz t = DateFromTime (LocalTime tz t)"

definition getDay :: "TimeZone \<Rightarrow> int \<Rightarrow> int" where
  "getDay tz t = WeekDay (LocalTime tz t)"

text \<open>\<^verbatim>\<open>new Date(year, month, date)\<close>: a year from 0 to 99 stands for 1900 + year; the
  time of day is 00:00 local time.\<close>

definition newDate :: "TimeZone \<Rightarrow> int \<Rightarrow> int \<Rightarrow> int \<Rightarrow> int" where
  "newDate tz year month date =
     (let yr = (if 0 \<le> year \<and> year \<le> 99 then 1900 + year else year)
      in UTC tz (MakeDate (MakeDay yr month date) 0))"


section \<open>Period Filter\<close>

text \<open>The interfaces \<^verbatim>\<open>IncomeEntry\<close> and \<^verbatim>\<open>ExpenseEntry\<close>. Their fields \<^verbatim>\<open>id\<close>,
  \<^verbatim>\<open>name\<close> and \<^verbatim>\<open>createdAt\<close> carry the name of the record, since field names are
  global here.\<close>

record IncomeEntry =
  incomeId :: string
  businessName :: string
  industry :: string
  incomeAmount :: jsval
  incomeDate :: "dateval option"
  incomeCreatedAt :: "dateval option"

record ExpenseEntry =
  expenseId :: string
  expenseName :: string
  category :: string
  expenseAmount :: jsval
  expenseDate :: "dateval option"
  expenseCreatedAt :: "dateval option"

text \<open>\<^verbatim>\<open>d instanceof Timestamp ? d.toDate() : (d as Date)\<close>\<close>

definition toDate :: "dateval option \<Rightarrow> int option" where
  "toDate d =
     (case d of
        None \<Rightarrow> None
      | Some (TimestampObj ms) \<Rightarrow> Some ms
      | Some (DateObj ms) \<Rightarrow> Some ms)"

definition startOfWeek :: "TimeZone \<Rightarrow> int \<Rightarrow> int" where
  "startOfWeek tz now =
     newDate tz (getFullYear tz now) (getMonth tz now) (getDate tz now - getDay tz now)"

definition endOfWeek :: "TimeZone \<Rightarrow> int \<Rightarrow> int" where
  "endOfWeek tz now =
     newDate tz (getFullYear tz now) (getMonth tz now)
       (getDate tz now + (6 - getDay tz now) + 1)"

text \<open>
  The filtering effect of the pages \<^verbatim>\<open>Incomes\<close> and \<^verbatim>\<open>Expenses\<close>, which differ only in
  the names of the date and amount fields (\<open>dateOf\<close>, \<open>amountOf\<close>). \<open>now\<close> is the time
  value of \<^verbatim>\<open>new Date()\<close>. An entry without a date is dropped by every period but
  \<^verbatim>\<open>all\<close>.
\<close>

definition periodFilter ::
  "('e \<Rightarrow> dateval option) \<Rightarrow> TimeZone \<Rightarrow> int \<Rightarrow> string \<Rightarrow> 'e list \<Rightarrow> 'e list" where
  "periodFilter dateOf tz now filterPeriod entries =
     (if filterPeriod = ''day'' then
        filter (\<lambda>entry. case toDate (dateOf entry) of
                  None \<Rightarrow> False
                | Some entryDate \<Rightarrow>
                    getDate tz entryDate = getDate tz now
                    \<and> getMonth tz entryDate = getMonth tz now
                    \<and> getFullYear tz entryDate = getFullYear tz now) entries
      else if filterPeriod = ''week'' then
        filter (\<lambda>entry. case toDate (dateOf entry) of
                  None \<Rightarrow> False
                | Some entryDate \<Rightarrow>
                    startOfWeek tz now \<le> entryDate \<and> entryDate < endOfWeek tz now) entries
      else if filterPeriod = ''month'' then
        filter (\<lambda>entry. case toDate (dateOf entry) of
                  None \<Rightarrow> False
                | Some entryDate \<Rightarrow>
                    getMonth tz entryDate = getMonth tz now
                    \<and> getFullYear tz entryDate = getFullYear tz now) entries
      else if filterPeriod = ''year'' then
        filter (\<lambda>entry. case toDate (dateOf entry) of
                  None \<Rightarrow> False
                | Some entryDate \<Rightarrow> getFullYear tz entryDate = getFullYear tz now) entries
      else if filterPeriod = ''all'' then entries
      else entries)"

text \<open>\<^verbatim>\<open>filtered.reduce((sum, entry) => sum + (parseFloat(String(amount)) || 0), 0)\<close>\<close>

definition totalOf :: "parseFloat \<Rightarrow> ('e \<Rightarrow> jsval) \<Rightarrow> 'e list \<Rightarrow> number" where
  "totalOf pf amountOf filtered =
     foldl (\<lambda>sum entry. sum + orZero (parseFloat_String pf (amountOf entry))) 0 filtered"

text \<open>The two effects: the filtered list (\<^verbatim>\<open>setFilteredIncomes\<close>) and its total
  (\<^verbatim>\<open>setTotalFilteredIncome\<close>).\<close>

definition Incomes_filter ::
  "parseFloat \<Rightarrow> TimeZone \<Rightarrow> int \<Rightarrow> string \<Rightarrow> IncomeEntry list \<Rightarrow>
     IncomeEntry list \<times> number" where
  "Incomes_filter pf tz now filterPeriod incomeEntries =
     (let filtered = periodFilter incomeDate tz now filterPeriod incomeEntries
      in (filtered, totalOf pf incomeAmount filtered))"

definition Expenses_filter ::
  "parseFloat \<Rightarrow> TimeZone \<Rightarrow> int \<Rightarrow> string \<Rightarrow> ExpenseEntry list \<Rightarrow>
     ExpenseEntry list \<times> number" where
  "Expenses_filter pf tz now filterPeriod expenseEntries =
     (let filtered = periodFilter expenseDate tz now filterPeriod expenseEntries
      in (filtered, totalOf pf expenseAmount filtered))"

text \<open>
  The week of the specification. The Sunday of the reference instant's week is the
  local calendar day found by going back from the reference instant's day by its
  weekday number (Sunday is 0); \<open>sundayOf\<close> is its day number. The week runs from 00:00
  local time of that day (\<open>weekStart\<close>) to 00:00 local time seven days later
  (\<open>weekEnd\<close>), each read as an instant by the platform's zone.
\<close>

definition sundayOf :: "TimeZone \<Rightarrow> int \<Rightarrow> int" where
  "sundayOf tz now = Day (LocalTime tz now) - WeekDay (LocalTime tz now)"

definition weekStart :: "TimeZone \<Rightarrow> int \<Rightarrow> int" where
  "weekStart tz now = UTC tz (sundayOf tz now * msPerDay)"

definition weekEnd :: "TimeZone \<Rightarrow> int \<Rightarrow> int" where
  "weekEnd tz now = UTC tz ((sundayOf tz now + 7) * msPerDay)"

definition inWeek :: "TimeZone \<Rightarrow> int \<Rightarrow> dateval option \<Rightarrow> bool" where
  "inWeek tz now d =
     (case toDate d of
        None \<Rightarrow> False
      | Some t \<Rightarrow> weekStart tz now \<le> t \<and> t < weekEnd tz now)"

text \<open>The value of an amount as the specification words it: the number, with a
  non-numeric or missing amount counted as 0.\<close>

definition amountValue :: "parseFloat \<Rightarrow> jsval \<Rightarrow> number" where
  "amountValue pf v = (case parseFloat_String pf v of None \<Rightarrow> 0 | Some x \<Rightarrow> x)"

text \<open>An income entry for running the model on concrete inputs.\<close>

definition sampleIncome :: "string \<Rightarrow> jsval \<Rightarrow> dateval option \<Rightarrow> IncomeEntry" where
  "sampleIncome i a d =
     \<lparr> incomeId = i, businessName = ''Shop'', industry = ''Retail'', incomeAmount = a,
       incomeDate = d, incomeCreatedAt = None \<rparr>"



section \<open>Double-precision numbers\<close>

text \<open>
  The forecast rounds to two decimals a balance that it has accumulated by repeated
  addition, so the last bits of that balance decide its digits. Its numbers are therefore
  modelled as IEEE-754 doubles: \<open>Double m e\<close> is the number \<open>m * 2\<^sup>e\<close>, and every operation
  gives the double nearest to the exact result, the one with the even mantissa of two
  (53 bits of mantissa, exponents from -1074). Overflow to an infinity, \<^verbatim>\<open>NaN\<close> and the sign
  of zero are outside the model.
\<close>

datatype double = Double int int

fun valueOf :: "double \<Rightarrow> real" where
  "valueOf (Double m e) = (if 0 \<le> e then of_int m * 2 ^ nat e else of_int m / 2 ^ nat (- e))"

text \<open>The number of bits of a positive integer.\<close>

function bitLength :: "int \<Rightarrow> int" where
  "bitLength n = (if n \<le> 0 then 0 else 1 + bitLength (n div 2))"
  by pat_completeness auto
termination
  by (relation "measure nat") auto

declare bitLength.simps [simp del]

text \<open>The double nearest to \<open>m * 2\<^sup>e\<close>: the lowest \<open>s\<close> bits of \<open>m\<close> are rounded away, to the
  even neighbour when they are exactly one half.\<close>

definition roundToDouble :: "int \<Rightarrow> int \<Rightarrow> double" where
  "roundToDouble m e =
     (let s = max (bitLength \<bar>m\<bar> - 53) (- 1074 - e)
      in if s \<le> 0 then Double m e
         else (let q = \<bar>m\<bar> div 2 ^ nat s;
                   r = \<bar>m\<bar> mod 2 ^ nat s;
                   half = 2 ^ nat (s - 1);
                   q' = (if half < r \<or> (r = half \<and> odd q) then q + 1 else q)
               in Double (sgn m * q') (e + s)))"

text \<open>The double nearest to the fraction \<open>p / q\<close> (\<open>q\<close> positive): the quotient is taken
  to at least 56 bits, with one more bit that records a remainder.\<close>

definition nearestDouble :: "int \<Rightarrow> int \<Rightarrow> double" where
  "nearestDouble p q =
     (let t = bitLength \<bar>p\<bar> - bitLength q - 56;
          num = \<bar>p\<bar> * 2 ^ nat (- t);
          den = q * 2 ^ nat t;
          n = num div den;
          sticky = (if num mod den = 0 then 0 else 1)
      in roundToDouble (sgn p * (2 * n + sticky)) (t - 1))"

text \<open>The operators \<^verbatim>\<open>+\<close>, \<^verbatim>\<open>*\<close> and \<^verbatim>\<open>/\<close> on doubles.\<close>

fun double_add :: "double \<Rightarrow> double \<Rightarrow> double" where
  "double_add (Double m1 e1) (Double m2 e2) =
     (let e = min e1 e2
      in roundToDouble (m1 * 2 ^ nat (e1 - e) + m2 * 2 ^ nat (e2 - e)) e)"

fun double_mul :: "double \<Rightarrow> double \<Rightarrow> double" where
  "double_mul (Double m1 e1) (Double m2 e2) = roundToDouble (m1 * m2) (e1 + e2)"

fun double_div :: "double \<Rightarrow> double \<Rightarrow> double" where
  "double_div (Double m1 e1) (Double m2 e2) =
     nearestDouble (sgn m2 * m1 * 2 ^ nat (e1 - e2)) (\<bar>m2\<bar> * 2 ^ nat (e2 - e1))"


section \<open>Dashboard forecast\<close>

text \<open>
  \<^verbatim>\<open>parseFloat(x.toFixed(2))\<close>: the number written by \<^verbatim>\<open>toFixed(2)\<close>. After the sign is
  set aside, a magnitude of at least \<open>10\<^sup>2\<^sup>1\<close> is written as \<^verbatim>\<open>String\<close> writes it and reads
  back as itself; otherwise the digits are those of the integer \<open>n\<close> for which
  \<open>n / 100\<close> is nearest to the magnitude, the larger \<open>n\<close> of two. \<^verbatim>\<open>toFixed\<close> works on the
  exact value of its double. The \<^verbatim>\<open>Balance\<close> of a point is kept as the decimal number
  that is written.
\<close>

definition toFixed2 :: "number \<Rightarrow> number" where
  "toFixed2 x =
     (if \<bar>x\<bar> \<ge> 10 ^ 21 then x
      else if x < 0 then - (of_int \<lfloor>\<bar>x\<bar> * 100 + 1 / 2\<rfloor> / 100)
      else of_int \<lfloor>\<bar>x\<bar> * 100 + 1 / 2\<rfloor> / 100)"

record ForecastPoint =
  name :: string
  Balance :: number

text \<open>The loop \<^verbatim>\<open>for (let i = 1; i <= 6; i++)\<close> with its two variables, the running
  balance \<^verbatim>\<open>currentProjectedBalance\<close> and the array \<^verbatim>\<open>forecastData\<close> (\<open>points\<close>);
  \<open>netCashFlow\<close> is the \<^verbatim>\<open>monthlyNetCashFlow\<close> of the context. The statement
  \<^verbatim>\<open>currentProjectedBalance += monthlyNetCashFlow\<close> is an addition of doubles.\<close>

function forecastLoop ::
  "int \<Rightarrow> double \<Rightarrow> double \<Rightarrow> ForecastPoint list \<Rightarrow> ForecastPoint list" where
  "forecastLoop i netCashFlow currentProjectedBalance points =
     (if i \<le> 6 then
        forecastLoop (i + 1) netCashFlow (double_add currentProjectedBalance netCashFlow)
          (points @
            [\<lparr> name = ''Month '' @ natToString (nat i),
               Balance =
                 toFixed2 (valueOf (double_add currentProjectedBalance netCashFlow)) \<rparr>])
      else points)"
  by pat_completeness auto
termination
  by (relation "measure (\<lambda>(i, f, c, d). nat (7 - i))") auto

declare forecastLoop.simps [simp del]

definition forecastData :: "double \<Rightarrow> double \<Rightarrow> ForecastPoint list" where
  "forecastData totalBankBalance netCashFlow =
     forecastLoop 1 netCashFlow totalBankBalance
       [\<lparr> name = ''Current'', Balance = toFixed2 (valueOf totalBankBalance) \<rparr>]"

text \<open>The running balance after \<open>i\<close> months: a double, never rounded to two decimals.\<close>

fun runningBalance :: "double \<Rightarrow> double \<Rightarrow> nat \<Rightarrow> double" where
  "runningBalance b f 0 = b"
| "runningBalance b f (Suc i) = double_add (runningBalance b f i) f"

text \<open>
  The forecast as the specification words it: point 0 is the rounded bank balance,
  and point \<open>i\<close> is point \<open>i - 1\<close> of the forecast plus the net cash flow, rounded. A point
  is a number of hundredths, read back as the nearest double before the addition.
\<close>

definition fixedToDouble :: "number \<Rightarrow> double" where
  "fixedToDouble x = nearestDouble \<lfloor>x * 100 + 1 / 2\<rfloor> 100"

fun statedForecast :: "double \<Rightarrow> double \<Rightarrow> nat \<Rightarrow> number" where
  "statedForecast b f 0 = toFixed2 (valueOf b)"
| "statedForecast b f (Suc i) =
     toFixed2 (valueOf (double_add (fixedToDouble (statedForecast b f i)) f))"

text \<open>The net cash flow of a weekly gross pay of 7000 without deductions,
  \<^verbatim>\<open>7000 * (365 / 7 / 12)\<close> in doubles.\<close>

definition weeklyFlow7000 :: double where
  "weeklyFlow7000 =
     double_mul (Double 7000 0) (double_div (double_div (Double 365 0) (Double 7 0)) (Double 12 0))"


section \<open>CSV Exporter\<close>

text \<open>
  \<^verbatim>\<open>String(n)\<close> for a number and \<^verbatim>\<open>toLocaleDateString()\<close> for a date are the platform's
  (the second depends on the locale); they are the parameters \<open>numToString\<close> and
  \<open>toLocaleDateString\<close> of the model.
\<close>

definition String_js :: "(number \<Rightarrow> string) \<Rightarrow> jsval \<Rightarrow> string" where
  "String_js numToString v =
     (case v of
        JUndefined \<Rightarrow> ''undefined''
      | JNull \<Rightarrow> ''null''
      | JNaN \<Rightarrow> ''NaN''
      | JNum x \<Rightarrow> numToString x
      | JStr s \<Rightarrow> s)"

text \<open>\<^verbatim>\<open>v || d\<close>: \<^verbatim>\<open>undefined\<close>, \<^verbatim>\<open>null\<close>, \<^verbatim>\<open>NaN\<close>, \<^verbatim>\<open>0\<close> and the empty string are falsy.\<close>

definition truthy :: "jsval \<Rightarrow> bool" where
  "truthy v =
     (case v of
        JUndefined \<Rightarrow> False
      | JNull \<Rightarrow> False
      | JNaN \<Rightarrow> False
      | JNum x \<Rightarrow> x \<noteq> 0
      | JStr s \<Rightarrow> s \<noteq> [])"

definition orElse :: "jsval \<Rightarrow> jsval \<Rightarrow> jsval" where
  "orElse v d = (if truthy v then v else d)"

text \<open>\<^verbatim>\<open>(d instanceof Date || d instanceof Timestamp) ? ... toLocaleDateString() : ''\<close>\<close>

definition dateText :: "(int \<Rightarrow> string) \<Rightarrow> dateval option \<Rightarrow> string" where
  "dateText toLocaleDateString d =
     (case d of
        None \<Rightarrow> []
      | Some (TimestampObj ms) \<Rightarrow> toLocaleDateString ms
      | Some (DateObj ms) \<Rightarrow> toLocaleDateString ms)"

text \<open>\<^verbatim>\<open>Array.prototype.join\<close> on an array of strings.\<close>

fun join :: "string \<Rightarrow> string list \<Rightarrow> string" where
  "join sep [] = []"
| "join sep [x] = x"
| "join sep (x # y # ys) = x @ sep @ join sep (y # ys)"

definition dquote :: char where
  "dquote = CHR 0x22"

definition newline :: char where
  "newline = CHR 0x0A"

text \<open>\<^verbatim>\<open>s.replace(/"/g, '""')\<close>\<close>

fun replaceQuotes :: "string \<Rightarrow> string" where
  "replaceQuotes [] = []"
| "replaceQuotes (c # cs) =
     (if c = dquote then dquote # dquote # replaceQuotes cs else c # replaceQuotes cs)"

text \<open>The template \<^verbatim>\<open>`"${String(field).replace(/"/g, '""')}"`\<close>\<close>

definition quoteField :: "(number \<Rightarrow> string) \<Rightarrow> jsval \<Rightarrow> string" where
  "quoteField numToString field =
     [dquote] @ replaceQuotes (String_js numToString field) @ [dquote]"

text \<open>\<^verbatim>\<open>row.map(field => ...).join(',')\<close>\<close>

definition csvLine :: "(number \<Rightarrow> string) \<Rightarrow> jsval list \<Rightarrow> string" where
  "csvLine numToString row = join '','' (map (quoteField numToString) row)"

definition expensesHeaders :: "string list" where
  "expensesHeaders = [''ID'', ''Name'', ''Category'', ''Amount'', ''Date'', ''Added On'']"

definition incomesHeaders :: "string list" where
  "incomesHeaders =
     [''ID'', ''Business Name'', ''Industry'', ''Amount'', ''Date Received'', ''Added On'']"

definition salaryHeaders :: "string list" where
  "salaryHeaders =
     [''Gross Salary'', ''Frequency'', ''Payday'', ''Days Off Per Week'',
      ''SSS Deduction'', ''Philhealth Deduction'', ''Pag-ibig Deduction'',
      ''Tax Deduction'', ''Loans Deduction'', ''Voluntary Deduction'', ''Last Updated'']"

definition expenseRow :: "(int \<Rightarrow> string) \<Rightarrow> ExpenseEntry \<Rightarrow> jsval list" where
  "expenseRow toLocaleDateString item =
     [JStr (expenseId item),
      JStr (expenseName item),
      JStr (category item),
      expenseAmount item,
      JStr (dateText toLocaleDateString (expenseDate item)),
      JStr (dateText toLocaleDateString (expenseCreatedAt item))]"

definition incomeRow :: "(int \<Rightarrow> string) \<Rightarrow> IncomeEntry \<Rightarrow> jsval list" where
  "incomeRow toLocaleDateString item =
     [JStr (incomeId item),
      JStr (businessName item),
      JStr (industry item),
      incomeAmount item,
      JStr (dateText toLocaleDateString (incomeDate item)),
      JStr (dateText toLocaleDateString (incomeCreatedAt item))]"

definition salaryRow :: "(int \<Rightarrow> string) \<Rightarrow> SalaryDetails \<Rightarrow> jsval list" where
  "salaryRow toLocaleDateString salaryData =
     [orElse (salary salaryData) (JNum 0),
      orElse (JStr (frequency salaryData)) (JStr []),
      orElse (JStr (paydaySpecific salaryData)) (JStr []),
      orElse (JStr (dayOffInMonth salaryData)) (JStr []),
      orElse (sss salaryData) (JNum 0),
      orElse (philhealth salaryData) (JNum 0),
      orElse (pagibig salaryData) (JNum 0),
      orElse (tax salaryData) (JNum 0),
      orElse (loans salaryData) (JNum 0),
      orElse (voluntary salaryData) (JNum 0),
      JStr (dateText toLocaleDateString (lastUpdated salaryData))]"

text \<open>
  The argument of \<^verbatim>\<open>convertToCSV\<close>: the \<^verbatim>\<open>type\<close> tag with the data it is called with, a
  list of expenses, a list of incomes, or the salary document (\<open>None\<close> for \<^verbatim>\<open>null\<close>).
\<close>

datatype csvData =
  ExpensesData "ExpenseEntry list"
| IncomesData "IncomeEntry list"
| SalaryData "SalaryDetails option"

text \<open>The array \<^verbatim>\<open>csvRows\<close>: the header is pushed first, then \<^verbatim>\<open>forEach\<close> pushes one line
  for each item.\<close>

definition csvRows :: "(number \<Rightarrow> string) \<Rightarrow> (int \<Rightarrow> string) \<Rightarrow> csvData \<Rightarrow> string list" where
  "csvRows numToString toLocaleDateString data =
     (case data of
        ExpensesData items \<Rightarrow>
          foldl (\<lambda>rows item. rows @ [csvLine numToString (expenseRow toLocaleDateString item)])
            [join '','' expensesHeaders] items
      | IncomesData items \<Rightarrow>
          foldl (\<lambda>rows item. rows @ [csvLine numToString (incomeRow toLocaleDateString item)])
            [join '','' incomesHeaders] items
      | SalaryData salaryData \<Rightarrow>
          (case salaryData of
             None \<Rightarrow> [join '','' salaryHeaders]
           | Some d \<Rightarrow>
               [join '','' salaryHeaders]
                 @ [csvLine numToString (salaryRow toLocaleDateString d)]))"

definition convertToCSV :: "(number \<Rightarrow> string) \<Rightarrow> (int \<Rightarrow> string) \<Rightarrow> csvData \<Rightarrow> string" where
  "convertToCSV numToString toLocaleDateString data =
     join [newline] (csvRows numToString toLocaleDateString data)"

text \<open>
  \<^verbatim>\<open>handleDownloadCSV\<close> (component \<^verbatim>\<open>History\<close>). \<open>downloadSupported\<close> is the browser's
  \<^verbatim>\<open>link.download !== undefined\<close>. The result is the file handed to the browser, or the
  message shown instead.
\<close>

datatype downloadResult =
  Downloaded string string
| NoDataAvailable
| DownloadNotSupported

definition handleDownloadCSV ::
  "(number \<Rightarrow> string) \<Rightarrow> (int \<Rightarrow> string) \<Rightarrow> bool \<Rightarrow>
     ExpenseEntry list \<Rightarrow> IncomeEntry list \<Rightarrow> SalaryDetails option \<Rightarrow> downloadResult" where
  "handleDownloadCSV numToString toLocaleDateString downloadSupported
       expenses incomes salaryDetails =
     (let fullCSVContent = [];
          fullCSVContent =
            (if length expenses > 0 then
               (fullCSVContent @ ''--- Expenses ---'' @ [newline])
                 @ (convertToCSV numToString toLocaleDateString (ExpensesData expenses)
                      @ [newline, newline])
             else fullCSVContent);
          fullCSVContent =
            (if length incomes > 0 then
               (fullCSVContent @ ''--- Incomes ---'' @ [newline])
                 @ (convertToCSV numToString toLocaleDateString (IncomesData incomes)
                      @ [newline, newline])
             else fullCSVContent);
          fullCSVContent =
            (case salaryDetails of
               Some d \<Rightarrow>
                 (fullCSVContent @ ''--- Salary Details ---'' @ [newline])
                   @ (convertToCSV numToString toLocaleDateString (SalaryData salaryDetails)
                        @ [newline, newline])
             | None \<Rightarrow> fullCSVContent)
      in if fullCSVContent = [] then NoDataAvailable
         else if downloadSupported then Downloaded ''expense_tracker_history.csv'' fullCSVContent
         else DownloadNotSupported)"

text \<open>A section of the file as the specification words it: a header line, the CSV of
  the collection, and a blank line.\<close>

definition sectionText :: "string \<Rightarrow> string \<Rightarrow> string" where
  "sectionText title csv = title @ [newline] @ csv @ [newline] @ [newline]"

text \<open>The content of a quoted field read back: a doubled quote is one quote, a single
  quote is an error.\<close>

fun unescapeQuotes :: "string \<Rightarrow> string option" where
  "unescapeQuotes [] = Some []"
| "unescapeQuotes [c] = (if c = dquote then None else Some [c])"
| "unescapeQuotes (c # d # cs) =
     (if c = dquote then
        (if d = dquote then map_option ((#) dquote) (unescapeQuotes cs) else None)
      else map_option ((#) c) (unescapeQuotes (d # cs)))"

text \<open>
  A row read back as quoted CSV. \<open>readQuoted\<close> reads a field after its opening quote
  up to the closing quote and returns the field's text and what follows; \<open>readFields\<close>
  reads quoted fields separated by commas, at most \<open>n\<close> of them; \<open>readLine\<close> reads a
  whole row.
\<close>

fun readQuoted :: "string \<Rightarrow> (string \<times> string) option" where
  "readQuoted [] = None"
| "readQuoted [c] = (if c = dquote then Some ([], []) else None)"
| "readQuoted (c # d # cs) =
     (if c = dquote then
        (if d = dquote then map_option (apfst ((#) dquote)) (readQuoted cs)
         else Some ([], d # cs))
      else map_option (apfst ((#) c)) (readQuoted (d # cs)))"

fun readFields :: "nat \<Rightarrow> string \<Rightarrow> string list option" where
  "readFields 0 s = None"
| "readFields (Suc n) [] = None"
| "readFields (Suc n) (c # cs) =
     (if c \<noteq> dquote then None
      else (case readQuoted cs of
              None \<Rightarrow> None
            | Some (field, rest) \<Rightarrow>
                (case rest of
                   [] \<Rightarrow> Some [field]
                 | r # rest' \<Rightarrow>
                     if r = CHR '','' then map_option ((#) field) (readFields n rest')
                     else None)))"

definition readLine :: "string \<Rightarrow> string list option" where
  "readLine s = readFields (length s) s"

text \<open>An expense entry and a salary document for running the model on concrete inputs.\<close>

definition sampleExpense :: "string \<Rightarrow> string \<Rightarrow> jsval \<Rightarrow> dateval option \<Rightarrow> ExpenseEntry" where
  "sampleExpense i n a d =
     \<lparr> expenseId = i, expenseName = n, category = ''Bills'', expenseAmount = a,
       expenseDate = d, expenseCreatedAt = None \<rparr>"

definition sampleSalary :: SalaryDetails where
  "sampleSalary =
     \<lparr> salary = JNum 7000, frequency = ''Weekly'', paydaySpecific = '''',
       dayOffInMonth = ''1'', sss = JUndefined, philhealth = JUndefined,
       pagibig = JUndefined, tax = JUndefined, loans = JUndefined,
       voluntary = JUndefined, lastUpdated = None \<rparr>"




section \<open>Properties of the number coercion\<close>

lemma orZero_None: "orZero None = 0"
  by (simp add: orZero_def)

lemma orZero_Some: "orZero (Some x) = x"
  by (simp add: orZero_def)

lemma parseFloat_String_absent:
  "parseFloat_String pf JUndefined = None"
  "parseFloat_String pf JNull = None"
  "parseFloat_String pf JNaN = None"
  by (simp_all add: parseFloat_String_def)

lemma parseFloat_String_JNum: "parseFloat_String pf (JNum x) = Some x"
  by (simp add: parseFloat_String_def)

lemma parseFloat_String_JStr: "parseFloat_String pf (JStr s) = pf s"
  by (simp add: parseFloat_String_def)

lemma digit_chars:
  "char_of (48 :: nat) = CHR ''0''" "char_of (49 :: nat) = CHR ''1''"
  "char_of (50 :: nat) = CHR ''2''" "char_of (51 :: nat) = CHR ''3''"
  "char_of (52 :: nat) = CHR ''4''" "char_of (53 :: nat) = CHR ''5''"
  "char_of (54 :: nat) = CHR ''6''" "char_of (55 :: nat) = CHR ''7''"
  "char_of (56 :: nat) = CHR ''8''" "char_of (57 :: nat) = CHR ''9''"
  by code_simp+

lemma natToString_samples:
  "natToString 0 = ''0''" "natToString 10 = ''10''" "natToString 500 = ''500''"
  "natToString 7000 = ''7000''"
  by (simp_all add: natToString.simps digit_chars)

lemma month_labels:
  "natToString (Suc 0) = ''1''" "natToString 2 = ''2''" "natToString 3 = ''3''"
  "natToString 4 = ''4''" "natToString 5 = ''5''" "natToString 6 = ''6''"
  by (simp_all add: natToString.simps digit_chars)

lemma parseFloatDecimal_samples:
  "parseFloatDecimal ''7000'' = Some 7000"
  "parseFloatDecimal ''12.5'' = Some 12.5"
  "parseFloatDecimal '' -3.25e2kg'' = Some (-325)"
  "parseFloatDecimal ''.5'' = Some 0.5"
  "parseFloatDecimal ''1e-2'' = Some 0.01"
  "parseFloatDecimal ''5.'' = Some 5"
  "parseFloatDecimal ''1e'' = Some 1"
  "parseFloatDecimal ''abc'' = None"
  "parseFloatDecimal [] = None"
  "parseFloatDecimal ''.'' = None"
  "parseFloatDecimal ''-'' = None"
  "parseFloatDecimal ''undefined'' = None"
  by (simp_all add: parseFloatDecimal_def exponentPart_def isDigit_def isStrWhiteSpaceChar_def
      Let_def)


section \<open>Properties of the Salary Calculator\<close>

lemma monthlyIncome_calculateSalary:
  "monthlyIncome (calculateSalary pf g f d s1 s2 s3 s4 s5 s6) =
     calculatedMonthlyIncome f (orZero (parseFloat_String pf g))"
  by (simp add: calculateSalary_def Let_def)

lemma dailyIncome_calculateSalary:
  "dailyIncome (calculateSalary pf g f d s1 s2 s3 s4 s5 s6) =
     (if workdaysInMonth d > 0
      then calculatedMonthlyIncome f (orZero (parseFloat_String pf g)) / workdaysInMonth d
      else 0)"
  by (simp add: calculateSalary_def Let_def)

lemma totalDeductions_calculateSalary:
  "totalDeductions (calculateSalary pf g f d s1 s2 s3 s4 s5 s6) =
     orZero (parseFloat_String pf s1) + orZero (parseFloat_String pf s2)
       + orZero (parseFloat_String pf s3) + orZero (parseFloat_String pf s4)
       + orZero (parseFloat_String pf s5) + orZero (parseFloat_String pf s6)"
  by (simp add: calculateSalary_def Let_def)

lemma workdaysInMonth_pos: "0 < workdaysInMonth d"
  by (simp add: workdaysInMonth_def)

text \<open>
  Claim C2. The monthly income computed by \<^verbatim>\<open>calculateSalary\<close> is the coerced gross pay
  when the frequency is Monthly, the coerced gross pay times 365/7/12 when it is Weekly,
  and times 365/14/12 when it is Fortnightly. The coerced gross pay is the parsed
  number, and it is 0 when the gross pay is missing or does not parse; the monthly
  income is then 0 for each of the three frequencies.
\<close>

theorem monthlyIncome_by_frequency:
  "monthlyIncome (calculateSalary pf g ''Monthly'' d s1 s2 s3 s4 s5 s6)
     = orZero (parseFloat_String pf g)
   \<and> monthlyIncome (calculateSalary pf g ''Weekly'' d s1 s2 s3 s4 s5 s6)
     = orZero (parseFloat_String pf g) * 365 / 7 / 12
   \<and> monthlyIncome (calculateSalary pf g ''Fortnightly'' d s1 s2 s3 s4 s5 s6)
     = orZero (parseFloat_String pf g) * 365 / 14 / 12
   \<and> (\<forall>x. parseFloat_String pf g = Some x \<longrightarrow> orZero (parseFloat_String pf g) = x)
   \<and> (parseFloat_String pf g = None \<longrightarrow>
        orZero (parseFloat_String pf g) = 0
        \<and> monthlyIncome (calculateSalary pf g ''Monthly'' d s1 s2 s3 s4 s5 s6) = 0
        \<and> monthlyIncome (calculateSalary pf g ''Weekly'' d s1 s2 s3 s4 s5 s6) = 0
        \<and> monthlyIncome (calculateSalary pf g ''Fortnightly'' d s1 s2 s3 s4 s5 s6) = 0)
   \<and> parseFloat_String pf JUndefined = None"
  by (simp add: monthlyIncome_calculateSalary calculatedMonthlyIncome_def orZero_def
      parseFloat_String_def)

theorem monthlyIncome_by_frequency_witness:
  "parseFloat_String parseFloatDecimal (JStr ''7000'') = Some 7000
   \<and> monthlyIncome (calculateSalary parseFloatDecimal (JStr ''7000'') ''Weekly'' ''1''
        JUndefined JUndefined JUndefined JUndefined JUndefined JUndefined) = 7000 * 365 / 7 / 12
   \<and> parseFloat_String parseFloatDecimal (JStr ''abc'') = None
   \<and> monthlyIncome (calculateSalary parseFloatDecimal (JStr ''abc'') ''Weekly'' ''1''
        JUndefined JUndefined JUndefined JUndefined JUndefined JUndefined) = 0
   \<and> monthlyIncome (calculateSalary parseFloatDecimal JUndefined ''Fortnightly'' ''2''
        JUndefined JUndefined JUndefined JUndefined JUndefined JUndefined) = 0"
proof -
  have p: "parseFloat_String parseFloatDecimal (JStr ''7000'') = Some 7000"
    by (simp add: parseFloat_String_JStr parseFloatDecimal_samples)
  have q: "parseFloat_String parseFloatDecimal (JStr ''abc'') = None"
    by (simp add: parseFloat_String_JStr parseFloatDecimal_samples)
  have u: "parseFloat_String parseFloatDecimal JUndefined = None"
    by (simp add: parseFloat_String_absent)
  note a = monthlyIncome_by_frequency [of parseFloatDecimal "JStr ''7000''" "''1''"
      JUndefined JUndefined JUndefined JUndefined JUndefined JUndefined]
  note b = monthlyIncome_by_frequency [of parseFloatDecimal "JStr ''abc''" "''1''"
      JUndefined JUndefined JUndefined JUndefined JUndefined JUndefined]
  note c = monthlyIncome_by_frequency [of parseFloatDecimal JUndefined "''2''"
      JUndefined JUndefined JUndefined JUndefined JUndefined JUndefined]
  from a p have 1: "monthlyIncome (calculateSalary parseFloatDecimal (JStr ''7000'') ''Weekly'' ''1''
        JUndefined JUndefined JUndefined JUndefined JUndefined JUndefined) = 7000 * 365 / 7 / 12"
    by simp
  from b q have 2: "monthlyIncome (calculateSalary parseFloatDecimal (JStr ''abc'') ''Weekly'' ''1''
        JUndefined JUndefined JUndefined JUndefined JUndefined JUndefined) = 0"
    by blast
  from c u have 3: "monthlyIncome (calculateSalary parseFloatDecimal JUndefined ''Fortnightly'' ''2''
        JUndefined JUndefined JUndefined JUndefined JUndefined JUndefined) = 0"
    by blast
  from p q 1 2 3 show ?thesis by blast
qed

text \<open>
  Claim C3. When the days off per week are '1' or '2', \<^verbatim>\<open>calculateSalary\<close> uses 26
  workdays for '1' and 22 for '2'. Both are strictly positive, so the guard
  \<^verbatim>\<open>workdaysInMonth > 0\<close> takes its first branch and the daily income is the monthly
  income divided by the workdays.
\<close>

theorem dailyIncome_by_workdays:
  assumes "d = ''1'' \<or> d = ''2''"
  shows "workdaysInMonth d = (if d = ''1'' then 26 else 22)
         \<and> 0 < workdaysInMonth d
         \<and> dailyIncome (calculateSalary pf g f d s1 s2 s3 s4 s5 s6)
           = monthlyIncome (calculateSalary pf g f d s1 s2 s3 s4 s5 s6) / workdaysInMonth d"
  using assms
  by (auto simp add: dailyIncome_calculateSalary monthlyIncome_calculateSalary
      workdaysInMonth_def)

theorem dailyIncome_by_workdays_witness:
  "workdaysInMonth ''1'' = 26 \<and> workdaysInMonth ''2'' = 22
   \<and> dailyIncome (calculateSalary parseFloatDecimal (JNum 30000) ''Monthly'' ''2''
        JUndefined JUndefined JUndefined JUndefined JUndefined JUndefined) = 30000 / 22
   \<and> dailyIncome (calculateSalary parseFloatDecimal (JNum 7000) ''Weekly'' ''1''
        JUndefined JUndefined JUndefined JUndefined JUndefined JUndefined)
       = 7000 * (365 / 7 / 12) / 26"
proof -
  have m1: "monthlyIncome (calculateSalary parseFloatDecimal (JNum 30000) ''Monthly'' ''2''
        JUndefined JUndefined JUndefined JUndefined JUndefined JUndefined) = 30000"
    by (simp add: monthlyIncome_calculateSalary calculatedMonthlyIncome_def
        parseFloat_String_JNum orZero_Some)
  have m2: "monthlyIncome (calculateSalary parseFloatDecimal (JNum 7000) ''Weekly'' ''1''
        JUndefined JUndefined JUndefined JUndefined JUndefined JUndefined) = 7000 * (365 / 7 / 12)"
    by (simp add: monthlyIncome_calculateSalary calculatedMonthlyIncome_def
        parseFloat_String_JNum orZero_Some)
  note a = dailyIncome_by_workdays [of "''2''" parseFloatDecimal "JNum 30000" "''Monthly''"
      JUndefined JUndefined JUndefined JUndefined JUndefined JUndefined]
  note b = dailyIncome_by_workdays [of "''1''" parseFloatDecimal "JNum 7000" "''Weekly''"
      JUndefined JUndefined JUndefined JUndefined JUndefined JUndefined]
  from a m1 have 1: "workdaysInMonth ''2'' = 22
     \<and> dailyIncome (calculateSalary parseFloatDecimal (JNum 30000) ''Monthly'' ''2''
        JUndefined JUndefined JUndefined JUndefined JUndefined JUndefined) = 30000 / 22"
    by simp
  from b m2 have 2: "workdaysInMonth ''1'' = 26
     \<and> dailyIncome (calculateSalary parseFloatDecimal (JNum 7000) ''Weekly'' ''1''
        JUndefined JUndefined JUndefined JUndefined JUndefined JUndefined)
       = 7000 * (365 / 7 / 12) / 26"
    by simp
  from 1 2 show ?thesis by blast
qed

text \<open>
  Claim C5. The monthly net cash flow set by the salary subscription of \<^verbatim>\<open>App\<close> is the
  Salary Calculator's monthly income minus its total deductions on the stored record,
  the total deductions being the sum of the six coerced deduction fields; it is 0 when
  no salary record exists.
\<close>

theorem monthlyNetCashFlow_eq:
  "monthlyNetCashFlow pf None = 0
   \<and> monthlyNetCashFlow pf (Some data)
     = monthlyIncome (calculateSalary pf (salary data) (frequency data) (dayOffInMonth data)
          (sss data) (philhealth data) (pagibig data) (tax data) (loans data) (voluntary data))
       - totalDeductions (calculateSalary pf (salary data) (frequency data) (dayOffInMonth data)
          (sss data) (philhealth data) (pagibig data) (tax data) (loans data) (voluntary data))
   \<and> totalDeductions (calculateSalary pf (salary data) (frequency data) (dayOffInMonth data)
          (sss data) (philhealth data) (pagibig data) (tax data) (loans data) (voluntary data))
     = orZero (parseFloat_String pf (sss data)) + orZero (parseFloat_String pf (philhealth data))
       + orZero (parseFloat_String pf (pagibig data)) + orZero (parseFloat_String pf (tax data))
       + orZero (parseFloat_String pf (loans data)) + orZero (parseFloat_String pf (voluntary data))"
  by (simp add: monthlyNetCashFlow_def monthlyIncome_calculateSalary
      totalDeductions_calculateSalary calculatedMonthlyIncome_def Let_def)

text \<open>
  Claim C10. Two runs of \<^verbatim>\<open>calculateSalary\<close> that differ only in the six deduction
  fields give the same monthly and daily income, and two runs that differ only in the
  gross pay, the frequency and the days off give the same total deductions.
\<close>

theorem calculateSalary_independence:
  "monthlyIncome (calculateSalary pf g f d a1 a2 a3 a4 a5 a6)
     = monthlyIncome (calculateSalary pf g f d b1 b2 b3 b4 b5 b6)
   \<and> dailyIncome (calculateSalary pf g f d a1 a2 a3 a4 a5 a6)
     = dailyIncome (calculateSalary pf g f d b1 b2 b3 b4 b5 b6)
   \<and> totalDeductions (calculateSalary pf g f d a1 a2 a3 a4 a5 a6)
     = totalDeductions (calculateSalary pf g' f' d' a1 a2 a3 a4 a5 a6)"
  by (simp add: monthlyIncome_calculateSalary dailyIncome_calculateSalary
      totalDeductions_calculateSalary)


section \<open>Properties of the calendar functions and of the Period Filter\<close>


lemma MonthFromTime_range: "0 \<le> MonthFromTime t \<and> MonthFromTime t \<le> 11"
  by (simp add: MonthFromTime_def Let_def)

lemma MakeDay_of_fields:
  "MakeDay (YearFromTime t) (MonthFromTime t) (DateFromTime t + k) = Day t + k"
proof -
  have r: "MonthFromTime t div 12 = 0" "MonthFromTime t mod 12 = MonthFromTime t"
    using MonthFromTime_range [of t] by simp_all
  show ?thesis
    by (simp add: MakeDay_def Let_def r DateFromTime_def DayWithinYear_def InLeapYear_def)
qed

lemma newDate_of_fields:
  assumes "getFullYear tz now < 0 \<or> 99 < getFullYear tz now"
  shows "newDate tz (getFullYear tz now) (getMonth tz now) (getDate tz now + k)
         = UTC tz ((Day (LocalTime tz now) + k) * msPerDay)"
  using assms MakeDay_of_fields [of "LocalTime tz now" k]
  by (auto simp add: newDate_def getFullYear_def getMonth_def getDate_def MakeDate_def)

lemma startOfWeek_eq:
  assumes "getFullYear tz now < 0 \<or> 99 < getFullYear tz now"
  shows "startOfWeek tz now = weekStart tz now"
  using newDate_of_fields [OF assms, of "- getDay tz now"]
  by (simp add: startOfWeek_def weekStart_def sundayOf_def getDay_def)

lemma endOfWeek_eq:
  assumes "getFullYear tz now < 0 \<or> 99 < getFullYear tz now"
  shows "endOfWeek tz now = weekEnd tz now"
proof -
  have "Day (LocalTime tz now) + (6 - getDay tz now + 1) = sundayOf tz now + 7"
    by (simp add: sundayOf_def getDay_def)
  then have "newDate tz (getFullYear tz now) (getMonth tz now) (getDate tz now + (6 - getDay tz now + 1))
             = UTC tz ((sundayOf tz now + 7) * msPerDay)"
    using newDate_of_fields [OF assms, of "6 - getDay tz now + 1"] by metis
  then show ?thesis
    by (simp add: endOfWeek_def weekEnd_def add.assoc)
qed

lemma Day_mult: "Day (k * msPerDay) = k" "TimeWithinDay (k * msPerDay) = 0"
  by (simp_all add: Day_def TimeWithinDay_def msPerDay_def)

lemma sundayOf_Sunday: "WeekDay (sundayOf tz now * msPerDay) = 0"
proof -
  have "WeekDay (sundayOf tz now * msPerDay)
        = (Day (LocalTime tz now) - (Day (LocalTime tz now) + 4) mod 7 + 4) mod 7"
    by (simp add: sundayOf_def WeekDay_def Day_mult)
  also have "\<dots> = 0"
    by presburger
  finally show ?thesis .
qed

lemma next_Sunday: "WeekDay ((sundayOf tz now + 7) * msPerDay) = 0"
proof -
  have "(sundayOf tz now + 4) mod 7 = 0"
    using sundayOf_Sunday [of tz now] by (simp add: WeekDay_def Day_mult)
  then have "(sundayOf tz now + 7 + 4) mod 7 = 0"
    by presburger
  then show ?thesis
    by (simp add: WeekDay_def Day_mult)
qed

lemma sundayOf_bounds:
  "sundayOf tz now \<le> Day (LocalTime tz now) \<and> Day (LocalTime tz now) < sundayOf tz now + 7"
proof -
  have "0 \<le> WeekDay (LocalTime tz now)" "WeekDay (LocalTime tz now) \<le> 6"
    by (simp_all add: WeekDay_def)
  then show ?thesis
    by (simp add: sundayOf_def)
qed

text \<open>In a zone without transitions the week is seven days long and the reference
  instant lies in it, and the week starts on a Sunday at 00:00 local time.\<close>

lemma fixedZone_time:
  "LocalTime (fixedZone offset) t = t + offset" "UTC (fixedZone offset) t = t - offset"
  by (simp_all add: LocalTime_def UTC_def fixedZone_def)

lemma fixedZone_week:
  "weekEnd (fixedZone offset) now = weekStart (fixedZone offset) now + 7 * msPerDay"
  "weekStart (fixedZone offset) now \<le> now"
  "now < weekEnd (fixedZone offset) now"
  "getDay (fixedZone offset) (weekStart (fixedZone offset) now) = 0"
  "TimeWithinDay (LocalTime (fixedZone offset) (weekStart (fixedZone offset) now)) = 0"
proof -
  define l where "l = LocalTime (fixedZone offset) now"
  define s where "s = sundayOf (fixedZone offset) now"
  have b: "s \<le> Day l" "Day l < s + 7"
    using sundayOf_bounds [of "fixedZone offset" now] by (simp_all add: s_def l_def)
  have d: "Day l * msPerDay \<le> l" "l < Day l * msPerDay + msPerDay"
    unfolding Day_def msPerDay_def by presburger+
  have p: "0 \<le> msPerDay"
    by (simp add: msPerDay_def)
  have "s * msPerDay \<le> Day l * msPerDay" "(Day l + 1) * msPerDay \<le> (s + 7) * msPerDay"
    using b p by (simp_all add: mult_right_mono)
  moreover have "(Day l + 1) * msPerDay = Day l * msPerDay + msPerDay"
    by (simp add: algebra_simps)
  ultimately have r: "s * msPerDay \<le> l" "l < (s + 7) * msPerDay"
    using d by linarith+
  show "weekEnd (fixedZone offset) now = weekStart (fixedZone offset) now + 7 * msPerDay"
    by (simp add: weekEnd_def weekStart_def fixedZone_time algebra_simps)
  show "weekStart (fixedZone offset) now \<le> now"
    using r(1) by (simp add: weekStart_def fixedZone_time s_def l_def)
  show "now < weekEnd (fixedZone offset) now"
    using r(2) by (simp add: weekEnd_def fixedZone_time s_def l_def)
  show "getDay (fixedZone offset) (weekStart (fixedZone offset) now) = 0"
    using sundayOf_Sunday [of "fixedZone offset" now]
    by (simp add: getDay_def weekStart_def fixedZone_time)
  show "TimeWithinDay (LocalTime (fixedZone offset) (weekStart (fixedZone offset) now)) = 0"
    by (simp add: weekStart_def fixedZone_time Day_mult)
qed


lemma yearSearch_upper: "d < DayFromYear (yearSearch y d + 1)"
proof (induction y d rule: yearSearch.induct)
  case (1 y d)
  show ?case
  proof (cases "DayFromYear (y + 1) \<le> d")
    case True
    with "1.IH" show ?thesis by (subst yearSearch.simps) simp
  next
    case False
    then show ?thesis by (subst yearSearch.simps) simp
  qed
qed

lemma yearSearch_lower: "DayFromYear y \<le> d \<Longrightarrow> DayFromYear (yearSearch y d) \<le> d"
proof (induction y d rule: yearSearch.induct)
  case (1 y d)
  show ?case
  proof (cases "DayFromYear (y + 1) \<le> d")
    case True
    with "1.IH" show ?thesis by (subst yearSearch.simps) simp
  next
    case False
    with "1.prems" show ?thesis by (subst yearSearch.simps) simp
  qed
qed

lemma DayFromYear_1970: "DayFromYear 1970 = 0"
  by (simp add: DayFromYear_def)

lemma DaysInYear_bounds: "365 \<le> DaysInYear y \<and> DaysInYear y \<le> 366"
  by (simp add: DaysInYear_def)

lemma DayFromYear_after_1970: "0 \<le> k \<Longrightarrow> DayFromYear (1970 + k) \<le> 366 * k"
proof (induction k rule: int_ge_induct)
  case base
  show ?case by (simp add: DayFromYear_1970)
next
  case (step i)
  have "DayFromYear (1970 + (i + 1)) = DayFromYear (1970 + i) + DaysInYear (1970 + i)"
    using DayFromYear_step [of "1970 + i"] by (simp add: add.assoc)
  moreover have "DaysInYear (1970 + i) \<le> 366"
    using DaysInYear_bounds [of "1970 + i"] by simp
  ultimately have "DayFromYear (1970 + (i + 1)) \<le> 366 * i + 366"
    using step.IH by simp
  then show ?case by (simp add: algebra_simps)
qed

lemma DayFromYear_before_1970: "k \<le> 0 \<Longrightarrow> DayFromYear (1970 + k) \<le> 365 * k"
proof (induction k rule: int_le_induct)
  case base
  show ?case by (simp add: DayFromYear_1970)
next
  case (step i)
  have "DayFromYear (1970 + i) = DayFromYear (1970 + (i - 1)) + DaysInYear (1970 + (i - 1))"
    using DayFromYear_step [of "1970 + (i - 1)"] by (simp add: algebra_simps)
  moreover have "365 \<le> DaysInYear (1970 + (i - 1))"
    using DaysInYear_bounds [of "1970 + (i - 1)"] by simp
  ultimately have "DayFromYear (1970 + (i - 1)) \<le> 365 * i - 365"
    using step.IH by simp
  then show ?case by (simp add: algebra_simps)
qed

lemma year_estimate:
  "DayFromYear (1970 + (if 0 \<le> d then d div 366 else d div 365)) \<le> d"
proof (cases "0 \<le> d")
  case True
  then have "0 \<le> d div 366" by simp
  from DayFromYear_after_1970 [OF this] have "DayFromYear (1970 + d div 366) \<le> 366 * (d div 366)" .
  moreover have "366 * (d div 366) \<le> d" by presburger
  ultimately show ?thesis using True by simp
next
  case False
  then have "d div 365 \<le> 0" by presburger
  from DayFromYear_before_1970 [OF this] have "DayFromYear (1970 + d div 365) \<le> 365 * (d div 365)" .
  moreover have "365 * (d div 365) \<le> d" by presburger
  ultimately show ?thesis using False by simp
qed

text \<open>\<open>YearFromTime\<close> meets its specification in ECMA-262: the year's first day is not
  after the day of \<open>t\<close>, and the next year's first day is.\<close>

lemma YearFromTime_spec:
  "DayFromYear (YearFromTime t) \<le> Day t \<and> Day t < DayFromYear (YearFromTime t + 1)"
  unfolding YearFromTime_def YearFromDay_def
  using yearSearch_lower [OF year_estimate [of "Day t"]] yearSearch_upper by blast

lemma DayWithinYear_range:
  "0 \<le> DayWithinYear t \<and> DayWithinYear t < DaysInYear (YearFromTime t)"
  using YearFromTime_spec [of t] DayFromYear_step [of "YearFromTime t"]
  by (simp add: DayWithinYear_def)

lemma DateFromTime_range: "1 \<le> DateFromTime t \<and> DateFromTime t \<le> 31"
proof -
  have l: "InLeapYear t = 0 \<and> DaysInYear (YearFromTime t) = 365
           \<or> InLeapYear t = 1 \<and> DaysInYear (YearFromTime t) = 366"
    using DaysInYear_bounds [of "YearFromTime t"] by (auto simp add: InLeapYear_def DaysInYear_def)
  with DayWithinYear_range [of t] show ?thesis
    unfolding DateFromTime_def MonthFromTime_def DayFromMonth_def Let_def
    by (auto simp add: nth_Cons')
qed

lemma epoch_fields:
  "YearFromTime 0 = 1970 \<and> MonthFromTime 0 = 0 \<and> DateFromTime 0 = 1 \<and> WeekDay 0 = 4"
  by code_simp

lemma sample_fields:
  "getFullYear (fixedZone 28800000) 1704254400000 = 2024
   \<and> getMonth (fixedZone 28800000) 1704254400000 = 0
   \<and> getDate (fixedZone 28800000) 1704254400000 = 3
   \<and> getDay (fixedZone 28800000) 1704254400000 = 3"
  "getFullYear newYork2024 1710345600000 = 2024 \<and> getMonth newYork2024 1710345600000 = 2
   \<and> getDate newYork2024 1710345600000 = 13 \<and> getDay newYork2024 1710345600000 = 3"
  by code_simp+

lemma calendar_samples:
  "YearFromTime 1709164800000 = 2024 \<and> MonthFromTime 1709164800000 = 1
     \<and> DateFromTime 1709164800000 = 29 \<and> WeekDay 1709164800000 = 4"
  "YearFromTime 1703980800000 = 2023 \<and> MonthFromTime 1703980800000 = 11
     \<and> DateFromTime 1703980800000 = 31 \<and> WeekDay 1703980800000 = 0"
  "YearFromTime 951782400000 = 2000 \<and> MonthFromTime 951782400000 = 1
     \<and> DateFromTime 951782400000 = 29 \<and> WeekDay 951782400000 = 2"
  "YearFromTime (- 2203891200000) = 1900 \<and> MonthFromTime (- 2203891200000) = 2
     \<and> DateFromTime (- 2203891200000) = 1 \<and> WeekDay (- 2203891200000) = 4"
  "YearFromTime (- 1) = 1969 \<and> MonthFromTime (- 1) = 11
     \<and> DateFromTime (- 1) = 31 \<and> WeekDay (- 1) = 3"
  "MakeDay 2024 0 0 = 19722" "MakeDay 2023 12 1 = 19723" "MakeDay 2024 (- 1) 31 = 19722"
  by code_simp+

lemma DayFromYear_mono: "y \<le> y' \<Longrightarrow> DayFromYear y \<le> DayFromYear y'"
proof (induction y' rule: int_ge_induct)
  case base
  show ?case by simp
next
  case (step i)
  with DayFromYear_step [of i] DaysInYear_pos [of i] show ?case by simp
qed

lemma YearFromDay_unique:
  assumes "DayFromYear y \<le> d" and "d < DayFromYear (y + 1)"
  shows "YearFromDay d = y"
proof -
  have s: "DayFromYear (YearFromDay d) \<le> d" "d < DayFromYear (YearFromDay d + 1)"
    unfolding YearFromDay_def
    using yearSearch_lower [OF year_estimate [of d]] yearSearch_upper by blast+
  have "\<not> YearFromDay d < y"
  proof
    assume "YearFromDay d < y"
    then have "DayFromYear (YearFromDay d + 1) \<le> DayFromYear y"
      by (intro DayFromYear_mono) simp
    with s assms show False by simp
  qed
  moreover have "\<not> y < YearFromDay d"
  proof
    assume "y < YearFromDay d"
    then have "DayFromYear (y + 1) \<le> DayFromYear (YearFromDay d)"
      by (intro DayFromYear_mono) simp
    with s assms show False by simp
  qed
  ultimately show ?thesis by simp
qed

text \<open>\<open>MakeDay\<close> meets its specification in ECMA-262: the day it finds for date 1 has
  the year, the month and the date asked for.\<close>

lemma MakeDay_spec:
  "YearFromTime (MakeDate (MakeDay y m 1) 0) = y + m div 12
   \<and> MonthFromTime (MakeDate (MakeDay y m 1) 0) = m mod 12
   \<and> DateFromTime (MakeDate (MakeDay y m 1) 0) = 1"
proof -
  define ym where "ym = y + m div 12"
  define mn where "mn = m mod 12"
  define l :: int where "l = (if DaysInYear ym = 366 then 1 else 0)"
  define t where "t = MakeDate (MakeDay y m 1) 0"
  have mn: "mn \<in> {0, 1, 2, 3, 4, 5, 6, 7, 8, 9, 10, 11}"
  proof -
    have "0 \<le> mn" "mn < 12" by (simp_all add: mn_def)
    then show ?thesis by (simp, presburger)
  qed
  have len: "DaysInYear ym = 365 + l"
    using DaysInYear_bounds [of ym] by (auto simp add: l_def DaysInYear_def)
  have l01: "l = 0 \<or> l = 1"
    by (simp add: l_def)
  have d: "Day t = DayFromYear ym + DayFromMonth mn l"
    by (simp add: t_def MakeDate_def MakeDay_def Let_def ym_def mn_def l_def Day_mult)
  have r: "0 \<le> DayFromMonth mn l" "DayFromMonth mn l < DaysInYear ym"
    using mn l01 len by (auto simp add: DayFromMonth_def)
  have yr: "YearFromTime t = ym"
    unfolding YearFromTime_def
    using r d DayFromYear_step [of ym] by (intro YearFromDay_unique) simp_all
  have dw: "DayWithinYear t = DayFromMonth mn l"
    by (simp add: DayWithinYear_def yr d)
  have lp: "InLeapYear t = l"
    by (simp add: InLeapYear_def yr l_def)
  have mo: "MonthFromTime t = mn"
    using mn l01 by (auto simp add: MonthFromTime_def dw lp DayFromMonth_def)
  have da: "DateFromTime t = 1"
    by (simp add: DateFromTime_def dw lp mo)
  show ?thesis
    using yr mo da by (simp add: t_def ym_def mn_def)
qed


lemma periodFilter_week:
  assumes "getFullYear tz now < 0 \<or> 99 < getFullYear tz now"
  shows "periodFilter dateOf tz now ''week'' entries
         = filter (\<lambda>e. inWeek tz now (dateOf e)) entries"
  unfolding periodFilter_def inWeek_def startOfWeek_eq [OF assms] endOfWeek_eq [OF assms]
  by simp

lemma fst_Incomes_filter:
  "fst (Incomes_filter pf tz now p es) = periodFilter incomeDate tz now p es"
  by (simp add: Incomes_filter_def Let_def)

lemma fst_Expenses_filter:
  "fst (Expenses_filter pf tz now p es) = periodFilter expenseDate tz now p es"
  by (simp add: Expenses_filter_def Let_def)

lemma week_samples:
  "weekStart newYork2024 1710345600000 = 1710046800000"
  "weekEnd newYork2024 1710345600000 = 1710648000000"
  "weekStart (fixedZone 28800000) 1704254400000 = 1703952000000"
  "weekEnd (fixedZone 28800000) 1704254400000 = 1704556800000"
  by code_simp+

text \<open>The week of 13 March 2024 in New York starts on Sunday 10 March at 00:00 local
  time (05:00 UTC) and ends on Sunday 17 March at 00:00 local time (04:00 UTC): it
  holds the transition of 10 March and is 167 hours long.\<close>

lemma newYork_week:
  "getDay newYork2024 1710046800000 = 0 \<and> getDate newYork2024 1710046800000 = 10
   \<and> TimeWithinDay (LocalTime newYork2024 1710046800000) = 0"
  "getDay newYork2024 1710648000000 = 0 \<and> getDate newYork2024 1710648000000 = 17
   \<and> TimeWithinDay (LocalTime newYork2024 1710648000000) = 0"
  "weekEnd newYork2024 1710345600000 - weekStart newYork2024 1710345600000 = 167 * 3600000"
  by code_simp+

text \<open>
  Claim C4. For a reference instant \<open>now\<close> (the time value of \<^verbatim>\<open>new Date()\<close>, whose local
  year is outside the two-digit range 0 to 99 that the \<^verbatim>\<open>Date\<close> constructor remaps)
  and every time zone, with or without daylight-saving transitions, the Week filter
  of the Incomes and of the Expenses page keeps exactly the entries whose date lies
  in the half-open interval from \<open>weekStart\<close> to \<open>weekEnd\<close>: from 00:00 local time of the
  Sunday of the reference instant's week to 00:00 local time of the next Sunday.
  That Sunday is what the code computes by subtracting the weekday number from the
  calendar date: its day number is the local day number of \<open>now\<close> less the weekday
  number of \<open>now\<close>, it is a Sunday, the day seven days later is a Sunday, and the
  local day of \<open>now\<close> is one of the seven days from it. In a zone without transitions
  the interval is seven days long, starts on a Sunday at 00:00 local time and holds
  \<open>now\<close>.
\<close>

theorem week_filter_interval:
  assumes "getFullYear tz now < 0 \<or> 99 < getFullYear tz now"
  shows "fst (Incomes_filter pf tz now ''week'' incomeEntries)
           = filter (\<lambda>e. inWeek tz now (incomeDate e)) incomeEntries
         \<and> fst (Expenses_filter pf tz now ''week'' expenseEntries)
           = filter (\<lambda>e. inWeek tz now (expenseDate e)) expenseEntries
         \<and> startOfWeek tz now = weekStart tz now
         \<and> endOfWeek tz now = weekEnd tz now
         \<and> sundayOf tz now = Day (LocalTime tz now) - getDay tz now
         \<and> WeekDay (sundayOf tz now * msPerDay) = 0
         \<and> WeekDay ((sundayOf tz now + 7) * msPerDay) = 0
         \<and> sundayOf tz now \<le> Day (LocalTime tz now)
         \<and> Day (LocalTime tz now) < sundayOf tz now + 7
         \<and> (tz = fixedZone offset \<longrightarrow>
              endOfWeek tz now = startOfWeek tz now + 7 * msPerDay
              \<and> startOfWeek tz now \<le> now
              \<and> now < endOfWeek tz now
              \<and> getDay tz (startOfWeek tz now) = 0
              \<and> TimeWithinDay (LocalTime tz (startOfWeek tz now)) = 0)"
proof -
  have s: "startOfWeek tz now = weekStart tz now" and e: "endOfWeek tz now = weekEnd tz now"
    by (simp_all add: startOfWeek_eq [OF assms] endOfWeek_eq [OF assms])
  have f: "fst (Incomes_filter pf tz now ''week'' incomeEntries)
             = filter (\<lambda>e. inWeek tz now (incomeDate e)) incomeEntries"
          "fst (Expenses_filter pf tz now ''week'' expenseEntries)
             = filter (\<lambda>e. inWeek tz now (expenseDate e)) expenseEntries"
    by (simp_all add: fst_Incomes_filter fst_Expenses_filter periodFilter_week [OF assms])
  have d: "sundayOf tz now = Day (LocalTime tz now) - getDay tz now"
    by (simp add: sundayOf_def getDay_def)
  have z: "tz = fixedZone offset \<longrightarrow>
              endOfWeek tz now = startOfWeek tz now + 7 * msPerDay
              \<and> startOfWeek tz now \<le> now
              \<and> now < endOfWeek tz now
              \<and> getDay tz (startOfWeek tz now) = 0
              \<and> TimeWithinDay (LocalTime tz (startOfWeek tz now)) = 0"
    unfolding s e using fixedZone_week [where offset = offset and now = now] by simp
  from s e f d z sundayOf_Sunday [of tz now] next_Sunday [of tz now] sundayOf_bounds [of tz now]
  show ?thesis
    by blast
qed

theorem week_filter_interval_witness:
  "getFullYear newYork2024 1710345600000 = 2024
   \<and> startOfWeek newYork2024 1710345600000 = 1710046800000
   \<and> endOfWeek newYork2024 1710345600000 = 1710648000000
   \<and> fst (Incomes_filter parseFloatDecimal newYork2024 1710345600000 ''week''
        [sampleIncome ''a'' (JNum 10) (Some (DateObj 1710046800000)),
         sampleIncome ''b'' (JNum 20) (Some (TimestampObj 1710647999999)),
         sampleIncome ''c'' (JNum 30) (Some (DateObj 1710648000000)),
         sampleIncome ''d'' (JNum 40) (Some (DateObj 1710046799999)),
         sampleIncome ''e'' (JNum 50) None,
         sampleIncome ''f'' (JNum 60) (Some (DateObj 1710649800000))])
     = [sampleIncome ''a'' (JNum 10) (Some (DateObj 1710046800000)),
        sampleIncome ''b'' (JNum 20) (Some (TimestampObj 1710647999999))]
   \<and> getFullYear (fixedZone 28800000) 1704254400000 = 2024
   \<and> startOfWeek (fixedZone 28800000) 1704254400000 = 1703952000000
   \<and> endOfWeek (fixedZone 28800000) 1704254400000 = 1703952000000 + 7 * msPerDay
   \<and> fst (Incomes_filter parseFloatDecimal (fixedZone 28800000) 1704254400000 ''week''
        [sampleIncome ''a'' (JNum 10) (Some (DateObj 1703952000000)),
         sampleIncome ''b'' (JNum 20) (Some (TimestampObj 1704556799999)),
         sampleIncome ''c'' (JNum 30) (Some (DateObj 1704556800000)),
         sampleIncome ''d'' (JNum 40) (Some (DateObj 1703951999999)),
         sampleIncome ''e'' (JNum 50) None])
     = [sampleIncome ''a'' (JNum 10) (Some (DateObj 1703952000000)),
        sampleIncome ''b'' (JNum 20) (Some (TimestampObj 1704556799999))]"
proof -
  have y: "getFullYear newYork2024 1710345600000 = 2024"
          "getFullYear (fixedZone 28800000) 1704254400000 = 2024"
    by (simp_all add: sample_fields)
  have h: "getFullYear newYork2024 1710345600000 < 0 \<or> 99 < getFullYear newYork2024 1710345600000"
    by (simp add: y)
  have h': "getFullYear (fixedZone 28800000) 1704254400000 < 0
            \<or> 99 < getFullYear (fixedZone 28800000) 1704254400000"
    by (simp add: y)
  note t = week_filter_interval [OF h, where pf = parseFloatDecimal and expenseEntries = "[]"
      and offset = 0 and incomeEntries =
      "[sampleIncome ''a'' (JNum 10) (Some (DateObj 1710046800000)),
         sampleIncome ''b'' (JNum 20) (Some (TimestampObj 1710647999999)),
         sampleIncome ''c'' (JNum 30) (Some (DateObj 1710648000000)),
         sampleIncome ''d'' (JNum 40) (Some (DateObj 1710046799999)),
         sampleIncome ''e'' (JNum 50) None,
         sampleIncome ''f'' (JNum 60) (Some (DateObj 1710649800000))]"]
  note t' = week_filter_interval [OF h', where pf = parseFloatDecimal and expenseEntries = "[]"
      and offset = 28800000 and incomeEntries =
      "[sampleIncome ''a'' (JNum 10) (Some (DateObj 1703952000000)),
         sampleIncome ''b'' (JNum 20) (Some (TimestampObj 1704556799999)),
         sampleIncome ''c'' (JNum 30) (Some (DateObj 1704556800000)),
         sampleIncome ''d'' (JNum 40) (Some (DateObj 1703951999999)),
         sampleIncome ''e'' (JNum 50) None]"]
  have a: "startOfWeek newYork2024 1710345600000 = 1710046800000
           \<and> endOfWeek newYork2024 1710345600000 = 1710648000000"
    using t by (simp add: week_samples)
  have b: "fst (Incomes_filter parseFloatDecimal newYork2024 1710345600000 ''week''
        [sampleIncome ''a'' (JNum 10) (Some (DateObj 1710046800000)),
         sampleIncome ''b'' (JNum 20) (Some (TimestampObj 1710647999999)),
         sampleIncome ''c'' (JNum 30) (Some (DateObj 1710648000000)),
         sampleIncome ''d'' (JNum 40) (Some (DateObj 1710046799999)),
         sampleIncome ''e'' (JNum 50) None,
         sampleIncome ''f'' (JNum 60) (Some (DateObj 1710649800000))])
     = [sampleIncome ''a'' (JNum 10) (Some (DateObj 1710046800000)),
        sampleIncome ''b'' (JNum 20) (Some (TimestampObj 1710647999999))]"
    using t by (simp add: week_samples inWeek_def toDate_def sampleIncome_def)
  have c: "startOfWeek (fixedZone 28800000) 1704254400000 = 1703952000000
           \<and> endOfWeek (fixedZone 28800000) 1704254400000 = 1703952000000 + 7 * msPerDay"
    using t' by (simp add: week_samples)
  have d: "fst (Incomes_filter parseFloatDecimal (fixedZone 28800000) 1704254400000 ''week''
        [sampleIncome ''a'' (JNum 10) (Some (DateObj 1703952000000)),
         sampleIncome ''b'' (JNum 20) (Some (TimestampObj 1704556799999)),
         sampleIncome ''c'' (JNum 30) (Some (DateObj 1704556800000)),
         sampleIncome ''d'' (JNum 40) (Some (DateObj 1703951999999)),
         sampleIncome ''e'' (JNum 50) None])
     = [sampleIncome ''a'' (JNum 10) (Some (DateObj 1703952000000)),
        sampleIncome ''b'' (JNum 20) (Some (TimestampObj 1704556799999))]"
    using t' by (simp add: week_samples inWeek_def toDate_def sampleIncome_def)
  from y a b c d show ?thesis
    by simp
qed

lemma foldl_add_sum: "foldl (\<lambda>s e. s + f e) a xs = a + sum_list (map f xs)" for a :: number
  by (induction xs arbitrary: a) (simp_all add: add.assoc)

lemma totalOf_sum:
  "totalOf pf amountOf xs = sum_list (map (\<lambda>e. orZero (parseFloat_String pf (amountOf e))) xs)"
  by (simp add: totalOf_def foldl_add_sum)

lemma periodFilter_all: "periodFilter dateOf tz now ''all'' entries = entries"
  by (simp add: periodFilter_def)

lemma orZero_amountValue: "orZero (parseFloat_String pf v) = amountValue pf v"
  by (simp add: orZero_def amountValue_def split: option.splits)

text \<open>
  Claim C8. With the period \<^verbatim>\<open>all\<close> the filter of the Incomes and of the Expenses page
  returns the input list unchanged, and the total is the sum of the amounts of the
  whole input, a non-numeric or missing amount counting as 0.
\<close>

theorem all_filter_identity:
  "Incomes_filter pf tz now ''all'' incomeEntries
     = (incomeEntries, sum_list (map (\<lambda>e. amountValue pf (incomeAmount e)) incomeEntries))
   \<and> Expenses_filter pf tz now ''all'' expenseEntries
     = (expenseEntries, sum_list (map (\<lambda>e. amountValue pf (expenseAmount e)) expenseEntries))"
  by (simp add: Incomes_filter_def Expenses_filter_def Let_def periodFilter_all totalOf_sum
      orZero_amountValue)

lemma subseq_filter_imp:
  assumes "\<And>x. P x \<Longrightarrow> Q x"
  shows "subseq (filter P xs) (filter Q xs)"
proof -
  have "filter P xs = filter P (filter Q xs)"
    using assms by (auto intro: filter_cong)
  then show ?thesis
    by (metis subseq_filter_left)
qed

lemma subseq_set_subset: "subseq xs ys \<Longrightarrow> set xs \<subseteq> set ys"
  by (induction rule: list_emb.induct) auto

lemma periodFilter_subseq: "subseq (periodFilter dateOf tz now p entries) entries"
  by (simp add: periodFilter_def)

lemma periodFilter_day_month:
  "subseq (periodFilter dateOf tz now ''day'' entries)
     (periodFilter dateOf tz now ''month'' entries)"
  unfolding periodFilter_def
  by (simp, rule subseq_filter_imp) (simp split: option.splits)

lemma periodFilter_month_year:
  "subseq (periodFilter dateOf tz now ''month'' entries)
     (periodFilter dateOf tz now ''year'' entries)"
  unfolding periodFilter_def
  by (simp, rule subseq_filter_imp) (simp split: option.splits)

text \<open>
  Claim C9. For one reference instant, the entries kept by the Day filter are among
  those kept by the Month filter, which are among those kept by the Year filter, which
  are among the input; and the result of every filter (whatever the period \<open>p\<close>) is a
  subsequence of its input, so it keeps the input's order. This holds on the Incomes
  and on the Expenses page.
\<close>

theorem period_filters_nested:
  "subseq (fst (Incomes_filter pf tz now ''day'' incomeEntries))
          (fst (Incomes_filter pf tz now ''month'' incomeEntries))
   \<and> subseq (fst (Incomes_filter pf tz now ''month'' incomeEntries))
          (fst (Incomes_filter pf tz now ''year'' incomeEntries))
   \<and> subseq (fst (Incomes_filter pf tz now ''year'' incomeEntries)) incomeEntries
   \<and> subseq (fst (Incomes_filter pf tz now p incomeEntries)) incomeEntries
   \<and> set (fst (Incomes_filter pf tz now ''day'' incomeEntries))
        \<subseteq> set (fst (Incomes_filter pf tz now ''month'' incomeEntries))
   \<and> set (fst (Incomes_filter pf tz now ''month'' incomeEntries))
        \<subseteq> set (fst (Incomes_filter pf tz now ''year'' incomeEntries))
   \<and> set (fst (Incomes_filter pf tz now ''year'' incomeEntries)) \<subseteq> set incomeEntries
   \<and> subseq (fst (Expenses_filter pf tz now ''day'' expenseEntries))
          (fst (Expenses_filter pf tz now ''month'' expenseEntries))
   \<and> subseq (fst (Expenses_filter pf tz now ''month'' expenseEntries))
          (fst (Expenses_filter pf tz now ''year'' expenseEntries))
   \<and> subseq (fst (Expenses_filter pf tz now ''year'' expenseEntries)) expenseEntries
   \<and> subseq (fst (Expenses_filter pf tz now p expenseEntries)) expenseEntries
   \<and> set (fst (Expenses_filter pf tz now ''day'' expenseEntries))
        \<subseteq> set (fst (Expenses_filter pf tz now ''month'' expenseEntries))
   \<and> set (fst (Expenses_filter pf tz now ''month'' expenseEntries))
        \<subseteq> set (fst (Expenses_filter pf tz now ''year'' expenseEntries))
   \<and> set (fst (Expenses_filter pf tz now ''year'' expenseEntries)) \<subseteq> set expenseEntries"
  by (simp add: fst_Incomes_filter fst_Expenses_filter periodFilter_subseq
      periodFilter_day_month periodFilter_month_year subseq_set_subset)


section \<open>Properties of the double-precision numbers\<close>

lemma valueOf_powr: "valueOf (Double m e) = of_int m * 2 powr of_int e"
proof (cases "0 \<le> e")
  case True
  then have "(2::real) powr of_int e = 2 ^ nat e"
    by (simp add: powr_realpow [symmetric])
  with True show ?thesis by simp
next
  case False
  then have "(2::real) powr of_int e = 1 / 2 ^ nat (- e)"
    by (simp add: powr_realpow [symmetric] powr_minus_divide [symmetric])
  with False show ?thesis by simp
qed

text \<open>\<open>bitLength\<close> counts the bits.\<close>

lemma bitLength_nonneg: "0 \<le> bitLength n"
proof (induction n rule: bitLength.induct)
  case (1 n)
  then show ?case
    by (subst bitLength.simps) simp
qed

lemma bitLength_pos: "0 < n \<Longrightarrow> 0 < bitLength n"
  using bitLength_nonneg [of "n div 2"] by (subst bitLength.simps) simp

lemma bitLength_bounds:
  "0 < n \<Longrightarrow> 2 ^ nat (bitLength n - 1) \<le> n \<and> n < 2 ^ nat (bitLength n)"
proof (induction n rule: bitLength.induct)
  case (1 n)
  show ?case
  proof (cases "n = 1")
    case True
    then show ?thesis
      by (simp add: bitLength.simps [of 1] bitLength.simps [of 0])
  next
    case False
    with "1.prems" have h: "0 < n div 2" by simp
    with "1.IH" "1.prems" have ih:
      "2 ^ nat (bitLength (n div 2) - 1) \<le> n div 2" "n div 2 < 2 ^ nat (bitLength (n div 2))"
      by simp_all
    have pos: "0 < bitLength (n div 2)"
      using h by (rule bitLength_pos)
    have b: "bitLength n = 1 + bitLength (n div 2)"
      using "1.prems" by (subst bitLength.simps) simp
    have p1: "(2::int) ^ nat (bitLength n - 1) = 2 ^ nat (bitLength (n div 2))"
      by (simp add: b)
    have p2: "(2::int) ^ nat (bitLength (n div 2)) = 2 * 2 ^ nat (bitLength (n div 2) - 1)"
      using pos by (metis Suc_nat_eq_nat_zadd1 add.commute diff_add_cancel diff_ge_0_iff_ge
          int_one_le_iff_zero_less power_Suc)
    have p3: "(2::int) ^ nat (bitLength n) = 2 * 2 ^ nat (bitLength (n div 2))"
      using pos by (simp add: b nat_add_distrib)
    from ih show ?thesis
      unfolding p1 p3 using p2 by linarith
  qed
qed

text \<open>The rounding step moves a mantissa by at most half a unit of the last place
  that is kept.\<close>

lemma round_half_even_error:
  fixes a :: int and s :: nat
  assumes "0 \<le> a" and "0 < s"
  defines "q \<equiv> a div 2 ^ s" and "r \<equiv> a mod 2 ^ s"
  defines "q' \<equiv> (if 2 ^ (s - 1) < r \<or> (r = 2 ^ (s - 1) \<and> odd q) then q + 1 else q)"
  shows "2 * \<bar>q' * 2 ^ s - a\<bar> \<le> 2 ^ s"
proof -
  have a: "a = q * 2 ^ s + r"
    unfolding q_def r_def by (rule div_mult_mod_eq [symmetric])
  have r: "0 \<le> r" "r < 2 ^ s"
    by (simp_all add: r_def)
  have p: "(2::int) ^ s = 2 * 2 ^ (s - 1)"
    using assms(2) by (cases s) simp_all
  show ?thesis
  proof (cases "2 ^ (s - 1) < r \<or> (r = 2 ^ (s - 1) \<and> odd q)")
    case True
    then have "q' * 2 ^ s - a = 2 ^ s - r"
      by (simp add: q'_def a algebra_simps)
    with True r p show ?thesis by auto
  next
    case False
    then have "q' * 2 ^ s - a = - r"
      by (simp add: q'_def a)
    with False r p show ?thesis by auto
  qed
qed

text \<open>So the value of \<open>roundToDouble m e\<close> lies within half a unit of the last place of
  \<open>m * 2\<^sup>e\<close>.\<close>

lemma roundToDouble_error:
  fixes m e :: int
  defines "s \<equiv> max (bitLength \<bar>m\<bar> - 53) (- 1074 - e)"
  shows "2 * \<bar>valueOf (roundToDouble m e) - of_int m * 2 powr of_int e\<bar>
         \<le> (if s \<le> 0 then 0 else 2 powr of_int (e + s))"
proof (cases "s \<le> 0")
  case True
  then have "roundToDouble m e = Double m e"
    by (simp add: roundToDouble_def s_def Let_def)
  with True show ?thesis
    by (simp add: valueOf_powr del: valueOf.simps)
next
  case False
  define k where "k = nat s"
  define q where "q = \<bar>m\<bar> div 2 ^ k"
  define r where "r = \<bar>m\<bar> mod 2 ^ k"
  define q' where "q' = (if 2 ^ (k - 1) < r \<or> (r = 2 ^ (k - 1) \<and> odd q) then q + 1 else q)"
  from False have k: "0 < k" "int k = s"
    by (simp_all add: k_def)
  have km: "nat (s - 1) = k - 1"
    by (simp add: k_def nat_diff_distrib)
  have rd: "roundToDouble m e = Double (sgn m * q') (e + s)"
    using False
    by (simp add: roundToDouble_def s_def [symmetric] Let_def q'_def q_def r_def k_def [symmetric] km)
  have err: "2 * \<bar>q' * 2 ^ k - \<bar>m\<bar>\<bar> \<le> 2 ^ k"
    unfolding q'_def q_def r_def by (rule round_half_even_error) (simp_all add: k)
  have "(2::real) powr of_int s = 2 powr real k"
    using k by (metis of_int_of_nat_eq)
  then have pw: "(2::real) powr of_int (e + s) = 2 ^ k * 2 powr of_int e"
    by (simp add: powr_add powr_realpow)
  define x where "x = sgn m * (q' * 2 ^ k - \<bar>m\<bar>)"
  have "valueOf (roundToDouble m e) - of_int m * 2 powr of_int e = of_int x * 2 powr of_int e"
  proof -
    have "m = sgn m * \<bar>m\<bar>"
      by (simp add: mult_sgn_abs)
    then have "of_int m = (of_int (sgn m * \<bar>m\<bar>) :: real)"
      by simp
    then show ?thesis
      unfolding rd valueOf_powr pw x_def by (simp add: algebra_simps del: valueOf.simps)
  qed
  then have eq: "\<bar>valueOf (roundToDouble m e) - of_int m * 2 powr of_int e\<bar>
      = of_int \<bar>x\<bar> * 2 powr of_int e"
    by (simp add: abs_mult)
  have "\<bar>x\<bar> \<le> \<bar>q' * 2 ^ k - \<bar>m\<bar>\<bar>"
    unfolding x_def by (cases "m = 0") (simp_all add: abs_mult)
  then have "2 * \<bar>x\<bar> \<le> 2 * \<bar>q' * 2 ^ k - \<bar>m\<bar>\<bar>"
    by simp
  then have "2 * \<bar>x\<bar> \<le> 2 ^ k"
    using err by (rule order_trans)
  then have "(of_int (2 * \<bar>x\<bar>) :: real) \<le> of_int (2 ^ k)"
    by (rule of_int_le_iff [THEN iffD2])
  then have "2 * of_int \<bar>x\<bar> * 2 powr of_int e \<le> (2::real) ^ k * 2 powr of_int e"
    by (intro mult_right_mono) simp_all
  with False show ?thesis
    unfolding eq pw by (simp add: algebra_simps)
qed

lemma powr_shift:
  fixes a b :: int
  assumes "a \<le> b"
  shows "(2::real) powr of_int b = 2 ^ nat (b - a) * 2 powr of_int a"
proof -
  have e: "(of_int b :: real) = real (nat (b - a)) + of_int a"
    using assms by simp
  have "(2::real) powr of_int b = 2 powr (real (nat (b - a)) + of_int a)"
    by (rule arg_cong [OF e])
  also have "\<dots> = 2 powr real (nat (b - a)) * 2 powr of_int a"
    by (rule powr_add)
  finally show ?thesis
    by (simp add: powr_realpow)
qed

text \<open>The integer that \<open>double_add\<close> rounds is the exact sum.\<close>

lemma double_add_exact_sum:
  "valueOf (Double m1 e1) + valueOf (Double m2 e2)
     = of_int (m1 * 2 ^ nat (e1 - min e1 e2) + m2 * 2 ^ nat (e2 - min e1 e2))
         * 2 powr of_int (min e1 e2)"
proof (cases "e1 \<le> e2")
  case True
  then have m: "min e1 e2 = e1" by simp
  show ?thesis
    unfolding valueOf_powr m powr_shift [OF True] by (simp add: algebra_simps)
next
  case False
  then have le: "e2 \<le> e1" and m: "min e1 e2 = e2" by simp_all
  show ?thesis
    unfolding valueOf_powr m powr_shift [OF le] by (simp add: algebra_simps)
qed

text \<open>A number that needs no rounding is kept.\<close>

lemma roundToDouble_exact:
  "bitLength \<bar>m\<bar> \<le> 53 \<Longrightarrow> - 1074 \<le> e \<Longrightarrow> roundToDouble m e = Double m e"
  by (simp add: roundToDouble_def Let_def)

lemma double_samples:
  "valueOf (nearestDouble 5 1000) = 5764607523034235 / 2 ^ 60"
  "valueOf (nearestDouble 304218375 10000) = 4181145508695245 / 2 ^ 37"
  "valueOf (nearestDouble 3041667 100) = 2090217646451589 / 2 ^ 36"
  "valueOf (double_add (Double 1 0) (nearestDouble 5 1000)) = 1131529406376837 / 2 ^ 50"
  "valueOf (double_div (Double 1 0) (Double 3 0)) = 6004799503160661 / 2 ^ 54"
  "valueOf weeklyFlow7000 = 2090217417386667 / 2 ^ 36"
  by code_simp+


section \<open>Properties of the dashboard forecast\<close>

lemma forecastLoop_unfold:
  "forecastData b f =
     [\<lparr> name = ''Current'', Balance = toFixed2 (valueOf b) \<rparr>,
      \<lparr> name = ''Month 1'', Balance = toFixed2 (valueOf (double_add b f)) \<rparr>,
      \<lparr> name = ''Month 2'', Balance = toFixed2 (valueOf (double_add (double_add b f) f)) \<rparr>,
      \<lparr> name = ''Month 3'',
        Balance = toFixed2 (valueOf (double_add (double_add (double_add b f) f) f)) \<rparr>,
      \<lparr> name = ''Month 4'',
        Balance =
          toFixed2 (valueOf (double_add (double_add (double_add (double_add b f) f) f) f)) \<rparr>,
      \<lparr> name = ''Month 5'',
        Balance =
          toFixed2 (valueOf
            (double_add (double_add (double_add (double_add (double_add b f) f) f) f) f)) \<rparr>,
      \<lparr> name = ''Month 6'',
        Balance =
          toFixed2 (valueOf
            (double_add
              (double_add (double_add (double_add (double_add (double_add b f) f) f) f) f)
              f)) \<rparr>]"
  by (simp add: forecastData_def forecastLoop.simps month_labels)

text \<open>
  Claim C1, as amended. The forecast has seven points. Point \<open>i\<close> is the running balance
  after \<open>i\<close> months rounded to two decimals, where the running balance starts at the
  total bank balance and grows by the monthly net cash flow, one addition of doubles a
  month, without being rounded to two decimals. Each point is rounded on its own and
  no rounded value enters a later point.
\<close>

theorem forecast_rounds_running_balance:
  "length (forecastData b f) = 7
   \<and> map Balance (forecastData b f) = map (\<lambda>i. toFixed2 (valueOf (runningBalance b f i))) [0..<7]
   \<and> runningBalance b f 0 = b
   \<and> (\<forall>i. runningBalance b f (Suc i) = double_add (runningBalance b f i) f)
   \<and> map name (forecastData b f)
     = [''Current'', ''Month 1'', ''Month 2'', ''Month 3'', ''Month 4'', ''Month 5'', ''Month 6'']"
proof -
  have u: "[0..<7] = [0, Suc 0, Suc (Suc 0), Suc (Suc (Suc 0)), Suc (Suc (Suc (Suc 0))),
      Suc (Suc (Suc (Suc (Suc 0)))), Suc (Suc (Suc (Suc (Suc (Suc 0)))))]"
    by (simp add: upt_rec)
  show ?thesis
    unfolding u forecastLoop_unfold by simp
qed

text \<open>The example of the specification, and two forecasts in which the last bits of the
  running balance decide a digit: six times 30421.8375 is 182531.025, and 1 plus 0.005
  is 1.005, but the doubles lie just below.\<close>

lemma forecast_example:
  "map Balance (forecastData (Double 1000 0) (Double 500 0))
     = [1000, 1500, 2000, 2500, 3000, 3500, 4000]"
  unfolding forecastLoop_unfold by code_simp

lemma forecast_last_bits:
  "map Balance (forecastData (Double 0 0) (nearestDouble 304218375 10000))
     = [0, 30421.84, 60843.68, 91265.51, 121687.35, 152109.19, 182531.02]"
  "map Balance (forecastData (Double 1 0) (nearestDouble 5 1000))
     = [1, 1, 1.01, 1.01, 1.02, 1.02, 1.03]"
  unfolding forecastLoop_unfold by code_simp+

text \<open>
  Claim C1 as stated fails: with no bank balance and a weekly gross pay of 7000 (a net
  cash flow of 30416.666...), point 1 is 30416.67 and point 2 is 60833.33, while point 1
  plus the net cash flow is 60833.3366..., which rounds to 60833.34.
\<close>

theorem forecast_feedback_counterexample:
  "valueOf weeklyFlow7000 = 2090217417386667 / 2 ^ 36
   \<and> Balance (forecastData (Double 0 0) weeklyFlow7000 ! 1) = 30416.67
   \<and> Balance (forecastData (Double 0 0) weeklyFlow7000 ! 2) = 60833.33
   \<and> toFixed2 (valueOf (double_add (fixedToDouble 30416.67) weeklyFlow7000)) = 60833.34
   \<and> Balance (forecastData (Double 0 0) weeklyFlow7000 ! 2)
       \<noteq> toFixed2 (valueOf (double_add
            (fixedToDouble (Balance (forecastData (Double 0 0) weeklyFlow7000 ! 1)))
            weeklyFlow7000))
   \<and> Balance (forecastData (Double 0 0) weeklyFlow7000 ! 2)
       \<noteq> valueOf (double_add
            (fixedToDouble (Balance (forecastData (Double 0 0) weeklyFlow7000 ! 1)))
            weeklyFlow7000)
   \<and> Balance (forecastData (Double 0 0) weeklyFlow7000 ! 2)
       \<noteq> Balance (forecastData (Double 0 0) weeklyFlow7000 ! 1) + valueOf weeklyFlow7000
   \<and> Balance (forecastData (Double 0 0) weeklyFlow7000 ! 2)
       \<noteq> statedForecast (Double 0 0) weeklyFlow7000 2"
proof -
  have w: "valueOf weeklyFlow7000 = 2090217417386667 / 2 ^ 36"
    by code_simp
  have a: "Balance (forecastData (Double 0 0) weeklyFlow7000 ! 1) = 30416.67"
    unfolding forecastLoop_unfold by code_simp
  have b: "Balance (forecastData (Double 0 0) weeklyFlow7000 ! 2) = 60833.33"
    unfolding forecastLoop_unfold by code_simp
  have c: "toFixed2 (valueOf (double_add (fixedToDouble 30416.67) weeklyFlow7000)) = 60833.34"
    by code_simp
  have d: "valueOf (double_add (fixedToDouble 30416.67) weeklyFlow7000) \<noteq> 60833.33"
    by code_simp
  have e: "statedForecast (Double 0 0) weeklyFlow7000 2 = 60833.34"
    by code_simp
  show ?thesis
    unfolding a b c e w using d by simp
qed


section \<open>Properties of the CSV Exporter\<close>

lemma wholeToString_samples:
  "wholeToString 0 = ''0''" "wholeToString 10 = ''10''" "wholeToString 500 = ''500''"
  "wholeToString 7000 = ''7000''"
  by (simp_all add: wholeToString_def natToString_samples)


lemma push_rows: "foldl (\<lambda>rows item. rows @ [f item]) acc items = acc @ map f items"
  by (induction items arbitrary: acc) simp_all

lemma unescape_replaceQuotes: "unescapeQuotes (replaceQuotes s) = Some s"
proof (induction s)
  case Nil
  show ?case by simp
next
  case (Cons c cs)
  show ?case
  proof (cases "c = dquote")
    case True
    with Cons.IH show ?thesis by simp
  next
    case False
    with Cons.IH show ?thesis
      by (cases "replaceQuotes cs") simp_all
  qed
qed

lemma readQuoted_replaceQuotes:
  assumes "rest = [] \<or> hd rest \<noteq> dquote"
  shows "readQuoted (replaceQuotes s @ dquote # rest) = Some (s, rest)"
proof (induction s)
  case Nil
  from assms show ?case
    by (cases rest) auto
next
  case (Cons c cs)
  show ?case
  proof (cases "c = dquote")
    case True
    with Cons.IH show ?thesis by simp
  next
    case False
    obtain d ds where e: "replaceQuotes cs @ dquote # rest = d # ds"
      by (cases "replaceQuotes cs @ dquote # rest") auto
    with Cons.IH have "readQuoted (d # ds) = Some (cs, rest)"
      by simp
    with False e show ?thesis by simp
  qed
qed

lemma readFields_join:
  assumes "texts \<noteq> []" and "length texts \<le> n"
  shows "readFields n (join '','' (map (\<lambda>s. [dquote] @ replaceQuotes s @ [dquote]) texts))
         = Some texts"
  using assms
proof (induction texts arbitrary: n)
  case Nil
  then show ?case by simp
next
  case (Cons f rest)
  from Cons.prems obtain m where n: "n = Suc m" and m: "length rest \<le> m"
    by (cases n) auto
  show ?case
  proof (cases rest)
    case Nil
    have "readQuoted (replaceQuotes f @ dquote # []) = Some (f, [])"
      by (rule readQuoted_replaceQuotes) simp
    with Nil n show ?thesis by simp
  next
    case (Cons g gs)
    define J where "J = join '','' (map (\<lambda>s. [dquote] @ replaceQuotes s @ [dquote]) rest)"
    have q: "readQuoted (replaceQuotes f @ dquote # (CHR '','' # J)) = Some (f, CHR '','' # J)"
      by (rule readQuoted_replaceQuotes) (simp add: dquote_def)
    have r: "readFields m J = Some rest"
      unfolding J_def using Cons m by (intro Cons.IH) simp_all
    have "join '','' (map (\<lambda>s. [dquote] @ replaceQuotes s @ [dquote]) (f # rest))
          = dquote # (replaceQuotes f @ dquote # (CHR '','' # J))"
      using Cons by (simp add: J_def)
    with q r n show ?thesis by simp
  qed
qed

lemma length_join_ge: "length xs \<le> length (join '','' (map (\<lambda>s. [dquote] @ replaceQuotes s @ [dquote]) xs))"
proof (induction xs rule: induct_list012)
  case 1
  show ?case by simp
next
  case (2 x)
  show ?case by simp
next
  case (3 x y zs)
  then show ?case by simp
qed

lemma readLine_csvLine:
  assumes "row \<noteq> []"
  shows "readLine (csvLine ns row) = Some (map (String_js ns) row)"
proof -
  have e: "map (quoteField ns) row
           = map (\<lambda>s. [dquote] @ replaceQuotes s @ [dquote]) (map (String_js ns) row)"
    by (simp add: quoteField_def)
  have "length (map (String_js ns) row)
        \<le> length (join '','' (map (\<lambda>s. [dquote] @ replaceQuotes s @ [dquote])
              (map (String_js ns) row)))"
    by (rule length_join_ge)
  with assms show ?thesis
    unfolding readLine_def csvLine_def e
    by (intro readFields_join) simp_all
qed

text \<open>
  Claim C6. For each of the three collection types, the rows of \<^verbatim>\<open>convertToCSV\<close> are
  the header row (the column labels joined by commas) followed by one row for each
  record, in order: one more row than there are records. A salary document is one
  record, and an absent one is none. The rows are joined by newlines. A record's row
  is its fields joined by commas, each field wrapped in double quotes with every double
  quote inside it doubled: reading doubled quotes back as single ones gives the field's
  text, the wrapped text has twice the field's quotes, and a record's row read back as
  quoted fields separated by commas gives the texts of the record's fields.
\<close>

theorem convertToCSV_rows:
  "csvRows ns ld (ExpensesData expenses)
     = join '','' expensesHeaders # map (\<lambda>item. csvLine ns (expenseRow ld item)) expenses
   \<and> csvRows ns ld (IncomesData incomes)
     = join '','' incomesHeaders # map (\<lambda>item. csvLine ns (incomeRow ld item)) incomes
   \<and> csvRows ns ld (SalaryData (Some d))
     = [join '','' salaryHeaders, csvLine ns (salaryRow ld d)]
   \<and> csvRows ns ld (SalaryData None) = [join '','' salaryHeaders]
   \<and> length (csvRows ns ld (ExpensesData expenses)) = 1 + length expenses
   \<and> length (csvRows ns ld (IncomesData incomes)) = 1 + length incomes
   \<and> convertToCSV ns ld data = join [newline] (csvRows ns ld data)
   \<and> csvLine ns row = join '','' (map (quoteField ns) row)
   \<and> quoteField ns field = dquote # replaceQuotes (String_js ns field) @ [dquote]
   \<and> unescapeQuotes (replaceQuotes (String_js ns field)) = Some (String_js ns field)
   \<and> length (filter (\<lambda>c. c = dquote) (replaceQuotes (String_js ns field)))
       = 2 * length (filter (\<lambda>c. c = dquote) (String_js ns field))
   \<and> readLine (csvLine ns (expenseRow ld expense))
       = Some (map (String_js ns) (expenseRow ld expense))
   \<and> readLine (csvLine ns (incomeRow ld income))
       = Some (map (String_js ns) (incomeRow ld income))
   \<and> readLine (csvLine ns (salaryRow ld d)) = Some (map (String_js ns) (salaryRow ld d))"
proof -
  have r: "readLine (csvLine ns (expenseRow ld expense))
             = Some (map (String_js ns) (expenseRow ld expense))"
    "readLine (csvLine ns (incomeRow ld income))
       = Some (map (String_js ns) (incomeRow ld income))"
    "readLine (csvLine ns (salaryRow ld d)) = Some (map (String_js ns) (salaryRow ld d))"
    by (rule readLine_csvLine, simp add: expenseRow_def incomeRow_def salaryRow_def)+
  have q: "length (filter (\<lambda>c. c = dquote) (replaceQuotes s))
           = 2 * length (filter (\<lambda>c. c = dquote) s)" for s
    by (induction s) simp_all
  show ?thesis
    using r
    by (simp add: csvRows_def push_rows convertToCSV_def quoteField_def
        unescape_replaceQuotes q)
       (simp add: csvLine_def)
qed


theorem convertToCSV_rows_witness:
  "convertToCSV wholeToString (\<lambda>t. ''1/1/2024'')
     (ExpensesData [sampleExpense ''e1'' (''Rent '' @ [dquote] @ ''A'' @ [dquote]) (JNum 500)
                      (Some (DateObj 1704067200000))])
   = ''ID,Name,Category,Amount,Date,Added On'' @ [newline]
     @ [dquote] @ ''e1'' @ [dquote] @ '',''
     @ [dquote] @ ''Rent '' @ [dquote, dquote] @ ''A'' @ [dquote, dquote] @ [dquote] @ '',''
     @ [dquote] @ ''Bills'' @ [dquote] @ '',''
     @ [dquote] @ ''500'' @ [dquote] @ '',''
     @ [dquote] @ ''1/1/2024'' @ [dquote] @ '',''
     @ [dquote] @ [dquote]"
  using convertToCSV_rows [of wholeToString "\<lambda>t. ''1/1/2024''"
      "[sampleExpense ''e1'' (''Rent '' @ [dquote] @ ''A'' @ [dquote]) (JNum 500)
          (Some (DateObj 1704067200000))]" "[]" sampleSalary
      "ExpensesData [sampleExpense ''e1'' (''Rent '' @ [dquote] @ ''A'' @ [dquote]) (JNum 500)
          (Some (DateObj 1704067200000))]" "[]" JNull]
  by (simp add: expensesHeaders_def expenseRow_def sampleExpense_def dateText_def
      String_js_def csvLine_def quoteField_def wholeToString_samples dquote_def newline_def)

text \<open>
  Claim C7, as amended. \<^verbatim>\<open>handleDownloadCSV\<close> writes a section only for a collection
  that is not empty (for the salary, a document that exists). When all three are
  empty no file is downloaded. Otherwise, in a browser that supports the download
  attribute, the file \<^verbatim>\<open>expense_tracker_history.csv\<close> consists of the sections of the
  non-empty collections in the order Expenses, Incomes, Salary Details, each a header
  line, the CSV of the collection and a blank line. When none of the three is empty
  the file has all three sections in that order.
\<close>

theorem download_sections:
  "handleDownloadCSV ns ld supported expenses incomes salaryDetails
     = (if expenses = [] \<and> incomes = [] \<and> salaryDetails = None then NoDataAvailable
        else if supported then
          Downloaded ''expense_tracker_history.csv''
            ((if expenses = [] then []
              else sectionText ''--- Expenses ---'' (convertToCSV ns ld (ExpensesData expenses)))
             @ (if incomes = [] then []
                else sectionText ''--- Incomes ---'' (convertToCSV ns ld (IncomesData incomes)))
             @ (if salaryDetails = None then []
                else sectionText ''--- Salary Details ---''
                       (convertToCSV ns ld (SalaryData salaryDetails))))
        else DownloadNotSupported)
   \<and> (expenses \<noteq> [] \<longrightarrow> incomes \<noteq> [] \<longrightarrow> salaryDetails \<noteq> None \<longrightarrow>
        handleDownloadCSV ns ld True expenses incomes salaryDetails
          = Downloaded ''expense_tracker_history.csv''
              (sectionText ''--- Expenses ---'' (convertToCSV ns ld (ExpensesData expenses))
               @ sectionText ''--- Incomes ---'' (convertToCSV ns ld (IncomesData incomes))
               @ sectionText ''--- Salary Details ---''
                   (convertToCSV ns ld (SalaryData salaryDetails))))"
  by (cases salaryDetails)
     (simp_all add: handleDownloadCSV_def Let_def sectionText_def)

theorem download_sections_witness:
  "handleDownloadCSV wholeToString (\<lambda>t. ''1/1/2024'') True
      [sampleExpense ''e1'' ''Rent'' (JNum 10) None]
      [sampleIncome ''i1'' (JNum 10) None]
      (Some sampleSalary)
   = Downloaded ''expense_tracker_history.csv''
       (''--- Expenses ---'' @ [newline]
        @ ''ID,Name,Category,Amount,Date,Added On'' @ [newline]
        @ [dquote] @ ''e1'' @ [dquote] @ '','' @ [dquote] @ ''Rent'' @ [dquote] @ '',''
        @ [dquote] @ ''Bills'' @ [dquote] @ '','' @ [dquote] @ ''10'' @ [dquote] @ '',''
        @ [dquote, dquote] @ '','' @ [dquote, dquote]
        @ [newline, newline]
        @ ''--- Incomes ---'' @ [newline]
        @ ''ID,Business Name,Industry,Amount,Date Received,Added On'' @ [newline]
        @ [dquote] @ ''i1'' @ [dquote] @ '','' @ [dquote] @ ''Shop'' @ [dquote] @ '',''
        @ [dquote] @ ''Retail'' @ [dquote] @ '','' @ [dquote] @ ''10'' @ [dquote] @ '',''
        @ [dquote, dquote] @ '','' @ [dquote, dquote]
        @ [newline, newline]
        @ ''--- Salary Details ---'' @ [newline]
        @ ''Gross Salary,Frequency,Payday,Days Off Per Week,SSS Deduction,''
        @ ''Philhealth Deduction,Pag-ibig Deduction,Tax Deduction,Loans Deduction,''
        @ ''Voluntary Deduction,Last Updated'' @ [newline]
        @ [dquote] @ ''7000'' @ [dquote] @ '','' @ [dquote] @ ''Weekly'' @ [dquote] @ '',''
        @ [dquote, dquote] @ '','' @ [dquote] @ ''1'' @ [dquote] @ '',''
        @ [dquote] @ ''0'' @ [dquote] @ '','' @ [dquote] @ ''0'' @ [dquote] @ '',''
        @ [dquote] @ ''0'' @ [dquote] @ '','' @ [dquote] @ ''0'' @ [dquote] @ '',''
        @ [dquote] @ ''0'' @ [dquote] @ '','' @ [dquote] @ ''0'' @ [dquote] @ '',''
        @ [dquote, dquote]
        @ [newline, newline])"
proof -
  note t = download_sections [of wholeToString "\<lambda>t. ''1/1/2024''" True
      "[sampleExpense ''e1'' ''Rent'' (JNum 10) None]"
      "[sampleIncome ''i1'' (JNum 10) None]" "Some sampleSalary"]
  have e: "convertToCSV wholeToString (\<lambda>t. ''1/1/2024'')
             (ExpensesData [sampleExpense ''e1'' ''Rent'' (JNum 10) None])
           = ''ID,Name,Category,Amount,Date,Added On'' @ [newline]
        @ [dquote] @ ''e1'' @ [dquote] @ '','' @ [dquote] @ ''Rent'' @ [dquote] @ '',''
        @ [dquote] @ ''Bills'' @ [dquote] @ '','' @ [dquote] @ ''10'' @ [dquote] @ '',''
        @ [dquote, dquote] @ '','' @ [dquote, dquote]"
    by (simp add: convertToCSV_def csvRows_def csvLine_def quoteField_def expensesHeaders_def
        expenseRow_def sampleExpense_def dateText_def String_js_def wholeToString_samples dquote_def newline_def)
  have i: "convertToCSV wholeToString (\<lambda>t. ''1/1/2024'')
             (IncomesData [sampleIncome ''i1'' (JNum 10) None])
           = ''ID,Business Name,Industry,Amount,Date Received,Added On'' @ [newline]
        @ [dquote] @ ''i1'' @ [dquote] @ '','' @ [dquote] @ ''Shop'' @ [dquote] @ '',''
        @ [dquote] @ ''Retail'' @ [dquote] @ '','' @ [dquote] @ ''10'' @ [dquote] @ '',''
        @ [dquote, dquote] @ '','' @ [dquote, dquote]"
    by (simp add: convertToCSV_def csvRows_def csvLine_def quoteField_def incomesHeaders_def
        incomeRow_def sampleIncome_def dateText_def String_js_def wholeToString_samples dquote_def newline_def)
  have s: "convertToCSV wholeToString (\<lambda>t. ''1/1/2024'') (SalaryData (Some sampleSalary))
           = ''Gross Salary,Frequency,Payday,Days Off Per Week,SSS Deduction,''
        @ ''Philhealth Deduction,Pag-ibig Deduction,Tax Deduction,Loans Deduction,''
        @ ''Voluntary Deduction,Last Updated'' @ [newline]
        @ [dquote] @ ''7000'' @ [dquote] @ '','' @ [dquote] @ ''Weekly'' @ [dquote] @ '',''
        @ [dquote, dquote] @ '','' @ [dquote] @ ''1'' @ [dquote] @ '',''
        @ [dquote] @ ''0'' @ [dquote] @ '','' @ [dquote] @ ''0'' @ [dquote] @ '',''
        @ [dquote] @ ''0'' @ [dquote] @ '','' @ [dquote] @ ''0'' @ [dquote] @ '',''
        @ [dquote] @ ''0'' @ [dquote] @ '','' @ [dquote] @ ''0'' @ [dquote] @ '',''
        @ [dquote, dquote]"
    by (simp add: convertToCSV_def csvRows_def csvLine_def quoteField_def salaryHeaders_def
        salaryRow_def sampleSalary_def dateText_def String_js_def orElse_def truthy_def
        wholeToString_samples dquote_def newline_def)
  show ?thesis
    using t by (simp add: e i s sectionText_def)
qed

text \<open>
  Claim C7 as stated fails: with no expenses, one income and no salary document the
  file has the Incomes section only, and with nothing at all no file is downloaded.
\<close>

theorem download_sections_counterexample:
  "handleDownloadCSV wholeToString (\<lambda>t. ''1/1/2024'') True
      [] [sampleIncome ''i1'' (JNum 10) None] None
   = Downloaded ''expense_tracker_history.csv''
       (''--- Incomes ---'' @ [newline]
        @ ''ID,Business Name,Industry,Amount,Date Received,Added On'' @ [newline]
        @ [dquote] @ ''i1'' @ [dquote] @ '','' @ [dquote] @ ''Shop'' @ [dquote] @ '',''
        @ [dquote] @ ''Retail'' @ [dquote] @ '','' @ [dquote] @ ''10'' @ [dquote] @ '',''
        @ [dquote, dquote] @ '','' @ [dquote, dquote]
        @ [newline, newline])
   \<and> \<not> sublist ''--- Expenses ---''
       (''--- Incomes ---'' @ [newline]
        @ ''ID,Business Name,Industry,Amount,Date Received,Added On'' @ [newline]
        @ [dquote] @ ''i1'' @ [dquote] @ '','' @ [dquote] @ ''Shop'' @ [dquote] @ '',''
        @ [dquote] @ ''Retail'' @ [dquote] @ '','' @ [dquote] @ ''10'' @ [dquote] @ '',''
        @ [dquote, dquote] @ '','' @ [dquote, dquote]
        @ [newline, newline])
   \<and> \<not> sublist ''--- Salary Details ---''
       (''--- Incomes ---'' @ [newline]
        @ ''ID,Business Name,Industry,Amount,Date Received,Added On'' @ [newline]
        @ [dquote] @ ''i1'' @ [dquote] @ '','' @ [dquote] @ ''Shop'' @ [dquote] @ '',''
        @ [dquote] @ ''Retail'' @ [dquote] @ '','' @ [dquote] @ ''10'' @ [dquote] @ '',''
        @ [dquote, dquote] @ '','' @ [dquote, dquote]
        @ [newline, newline])
   \<and> handleDownloadCSV wholeToString (\<lambda>t. ''1/1/2024'') True [] [] None = NoDataAvailable"
proof -
  have i: "convertToCSV wholeToString (\<lambda>t. ''1/1/2024'')
             (IncomesData [sampleIncome ''i1'' (JNum 10) None])
           = ''ID,Business Name,Industry,Amount,Date Received,Added On'' @ [newline]
        @ [dquote] @ ''i1'' @ [dquote] @ '','' @ [dquote] @ ''Shop'' @ [dquote] @ '',''
        @ [dquote] @ ''Retail'' @ [dquote] @ '','' @ [dquote] @ ''10'' @ [dquote] @ '',''
        @ [dquote, dquote] @ '','' @ [dquote, dquote]"
    by (simp add: convertToCSV_def csvRows_def csvLine_def quoteField_def incomesHeaders_def
        incomeRow_def sampleIncome_def dateText_def String_js_def wholeToString_samples dquote_def newline_def)
  have a: "handleDownloadCSV wholeToString (\<lambda>t. ''1/1/2024'') True
      [] [sampleIncome ''i1'' (JNum 10) None] None
   = Downloaded ''expense_tracker_history.csv''
       (''--- Incomes ---'' @ [newline]
        @ ''ID,Business Name,Industry,Amount,Date Received,Added On'' @ [newline]
        @ [dquote] @ ''i1'' @ [dquote] @ '','' @ [dquote] @ ''Shop'' @ [dquote] @ '',''
        @ [dquote] @ ''Retail'' @ [dquote] @ '','' @ [dquote] @ ''10'' @ [dquote] @ '',''
        @ [dquote, dquote] @ '','' @ [dquote, dquote]
        @ [newline, newline])"
    by (simp add: handleDownloadCSV_def Let_def i)
  have b: "\<not> sublist ''--- Expenses ---''
       (''--- Incomes ---'' @ [newline]
        @ ''ID,Business Name,Industry,Amount,Date Received,Added On'' @ [newline]
        @ [dquote] @ ''i1'' @ [dquote] @ '','' @ [dquote] @ ''Shop'' @ [dquote] @ '',''
        @ [dquote] @ ''Retail'' @ [dquote] @ '','' @ [dquote] @ ''10'' @ [dquote] @ '',''
        @ [dquote, dquote] @ '','' @ [dquote, dquote]
        @ [newline, newline])"
    by code_simp
  have c: "\<not> sublist ''--- Salary Details ---''
       (''--- Incomes ---'' @ [newline]
        @ ''ID,Business Name,Industry,Amount,Date Received,Added On'' @ [newline]
        @ [dquote] @ ''i1'' @ [dquote] @ '','' @ [dquote] @ ''Shop'' @ [dquote] @ '',''
        @ [dquote] @ ''Retail'' @ [dquote] @ '','' @ [dquote] @ ''10'' @ [dquote] @ '',''
        @ [dquote, dquote] @ '','' @ [dquote, dquote]
        @ [newline, newline])"
    by code_simp
  have d: "handleDownloadCSV wholeToString (\<lambda>t. ''1/1/2024'') True [] [] None = NoDataAvailable"
    by (simp add: handleDownloadCSV_def Let_def)
  from a b c d show ?thesis by blast
qed

end
